theory Spec2Isabelle
  imports Complex_Main
begin

section \<open>Python values, exceptions and the violation log\<close>

text \<open>
  The suite \<^verbatim>\<open>Test_Keywords\<close> of \<^verbatim>\<open>tests/test_keywords.py\<close> reads a batch of FITS headers and
  three reference tables and runs one method per check. Each check loops over the headers,
  writes violations to the log with \<^verbatim>\<open>logging.error\<close>, and either returns or is left by an
  exception. A check is modelled as a function returning its \<open>outcome\<close>: the violations it
  logged, in order, and the exception that ended it, if any.

  A Python float is a rational number, an infinity or NaN: comparisons of Python numbers
  are exact, so nothing is lost for \<open>==\<close> and \<open>\<le>\<close>. Strings are byte lists; for ASCII
  text \<open>len\<close> is \<open>length\<close>.
\<close>

datatype pyfloat = Fin rat | PInf | NInf | NaN

text \<open>
  The values read from a decoded header: integers, floats, strings and booleans, and the
  list of texts read under a commentary keyword.
\<close>

datatype pyval = PInt int | PFloat pyfloat | PStr string | PBool bool | PList "string list"

datatype pytype = Tfloat | Tint | Tstr | Tbool | Tlist

text \<open>
  The exceptions the checks can meet. A \<open>KeyError\<close> carries the missing key; a
  \<open>ValueError\<close> carries the arguments the suite gives it, and none when the runtime raises
  it (a failed \<open>float\<close>, \<open>int\<close> or unpacking).
\<close>

datatype pyerr =
    KeyError string
  | IndexError
  | TypeError
  | AttributeError
  | AssertionError
  | ValueError "pyval list"

text \<open>
  A log entry per \<^verbatim>\<open>logging.error\<close> call of the suite, holding the values its message
  formats: first the name of the check and the header's \<open>FILENAME\<close> value, then what the
  message reports. \<open>Caught\<close> is the entry written by the two \<open>except\<close> handlers.
\<close>

datatype violation =
    Compare_numbers string pyval pyval pyval
  | Compare_lists string pyval "string set"
  | Verify_if_different string pyval "string set" "string set"
  | Verify_type string pyval string pytype pytype
  | Kw_in_interval string pyval string pyfloat pyfloat pyval
  | Val_in_list string pyval string "pyval list" pyval
  | Verify_regex string pyval string pyval
  | Verify_str_size string pyval string nat nat
  | Caught string pyval "string option" pyerr
  | Simulated string pyval string
  | Empty_observer string pyval

type_synonym outcome = "violation list \<times> pyerr option"

text \<open>
  The functions of the Python runtime and of the regular-expression library that the suite
  calls on strings are parameters: \<open>float(s)\<close>, \<open>int(s)\<close>, the formatting of a value
  inside an f-string, and \<open>re.match(pattern, s)\<close>.
\<close>

record pylib =
  float_of_str :: "string \<Rightarrow> pyerr + pyfloat"
  int_of_str :: "string \<Rightarrow> pyerr + int"
  format_val :: "pyval \<Rightarrow> string"
  re_match :: "string \<Rightarrow> string \<Rightarrow> bool"

subsection \<open>Numbers\<close>

fun num_of :: "pyval \<Rightarrow> pyfloat option" where
  "num_of (PInt i) = Some (Fin (of_int i))"
| "num_of (PFloat f) = Some f"
| "num_of (PBool b) = Some (Fin (if b then 1 else 0))"
| "num_of (PStr s) = None"
| "num_of (PList l) = None"

fun fl_le :: "pyfloat \<Rightarrow> pyfloat \<Rightarrow> bool" where
  "fl_le NaN y = False"
| "fl_le x NaN = False"
| "fl_le NInf y = True"
| "fl_le x PInf = True"
| "fl_le (Fin a) (Fin b) = (a \<le> b)"
| "fl_le x y = False"

definition fl_eq :: "pyfloat \<Rightarrow> pyfloat \<Rightarrow> bool" where
  "fl_eq x y = (x \<noteq> NaN \<and> x = y)"

text \<open>\<open>a == b\<close>: numbers (booleans included) compare by value, strings with strings.\<close>

fun py_eq :: "pyval \<Rightarrow> pyval \<Rightarrow> bool" where
  "py_eq (PStr a) (PStr b) = (a = b)"
| "py_eq (PList a) (PList b) = (a = b)"
| "py_eq a b = (case (num_of a, num_of b) of (Some x, Some y) \<Rightarrow> fl_eq x y | _ \<Rightarrow> False)"

text \<open>\<open>lo <= v\<close> with a float on one side: a string or a list on the other raises.\<close>

definition py_le :: "pyval \<Rightarrow> pyval \<Rightarrow> pyerr + bool" where
  "py_le a b =
     (case (num_of a, num_of b) of
        (Some x, Some y) \<Rightarrow> Inr (fl_le x y)
      | _ \<Rightarrow> Inl TypeError)"

text \<open>
  \<open>numpy.allclose(a, b)\<close> on two scalars, with the default tolerances: finite values are
  close when \<open>|a - b| \<le> atol + rtol * |b|\<close>, an infinity is close to itself only, NaN to
  nothing. A string operand raises.
\<close>

definition rtol :: rat where
  "rtol = 1 / 100000"

definition atol :: rat where
  "atol = 1 / 100000000"

fun isclose :: "pyfloat \<Rightarrow> pyfloat \<Rightarrow> bool" where
  "isclose (Fin a) (Fin b) = (\<bar>a - b\<bar> \<le> atol + rtol * \<bar>b\<bar>)"
| "isclose PInf PInf = True"
| "isclose NInf NInf = True"
| "isclose x y = False"

definition np_allclose :: "pyval \<Rightarrow> pyval \<Rightarrow> pyerr + bool" where
  "np_allclose a b =
     (case (num_of a, num_of b) of
        (Some x, Some y) \<Rightarrow> Inr (isclose x y)
      | _ \<Rightarrow> Inl TypeError)"

subsection \<open>Strings and sequences\<close>

text \<open>\<open>s.split(",")\<close>: the fields between the commas; never the empty list.\<close>

fun split_comma :: "string \<Rightarrow> string list" where
  "split_comma [] = [[]]"
| "split_comma (c # cs) =
     (if c = CHR '','' then [] # split_comma cs
      else (case split_comma cs of
              [] \<Rightarrow> [[c]]
            | w # ws \<Rightarrow> (c # w) # ws))"


fun py_len :: "pyval \<Rightarrow> pyerr + nat" where
  "py_len (PStr s) = Inr (length s)"
| "py_len (PList l) = Inr (length l)"
| "py_len v = Inl TypeError"

text \<open>\<open>v[-1]\<close>: the last character or item; nothing to take from an empty sequence.\<close>

fun py_last :: "pyval \<Rightarrow> pyerr + string" where
  "py_last (PStr s) = (if s = [] then Inl IndexError else Inr [last s])"
| "py_last (PList l) = (if l = [] then Inl IndexError else Inr (last l))"
| "py_last v = Inl TypeError"

fun type_of :: "pyval \<Rightarrow> pytype" where
  "type_of (PInt i) = Tint"
| "type_of (PFloat f) = Tfloat"
| "type_of (PStr s) = Tstr"
| "type_of (PBool b) = Tbool"
| "type_of (PList l) = Tlist"

text \<open>\<open>isinstance(v, t)\<close>: \<open>bool\<close> is a subclass of \<open>int\<close>.\<close>

fun isinstance :: "pyval \<Rightarrow> pytype \<Rightarrow> bool" where
  "isinstance (PBool b) Tint = True"
| "isinstance v t = (type_of v = t)"

definition py_format :: "pylib \<Rightarrow> pyval \<Rightarrow> string" where
  "py_format lib v = (case v of PStr s \<Rightarrow> s | _ \<Rightarrow> format_val lib v)"

subsection \<open>Headers and reference tables\<close>

text \<open>
  A header is the ordered list of its cards: keyword, value, comment, as the FITS library
  decodes them (\<^verbatim>\<open>fits.getheader\<close>). For an ordinary keyword \<open>hdr[k]\<close> is the value of the
  first card of keyword \<open>k\<close>. For a commentary keyword (\<open>COMMENT\<close>, \<open>HISTORY\<close>, the blank
  keyword, \<open>END\<close>) \<open>hdr[k]\<close> is the sequence of the texts of all the cards of that keyword,
  one item per card, so it has at least one item. In both cases \<open>hdr[k]\<close> raises
  \<open>KeyError\<close> when the header has no card of keyword \<open>k\<close>. \<open>del hdr[k]\<close> removes every
  card of that keyword.
\<close>

type_synonym card = "string \<times> pyval \<times> string"

type_synonym header = "card list"

definition keys :: "header \<Rightarrow> string list" where
  "keys h = map fst h"


definition commentary_keywords :: "string list" where
  "commentary_keywords = ['''', ''COMMENT'', ''HISTORY'', ''END'']"

text \<open>
  The text of a commentary card: the library gives such a card a string. The second
  equation makes the function total and is not met on a decoded header.
\<close>

fun card_text :: "pyval \<Rightarrow> string" where
  "card_text (PStr s) = s"
| "card_text v = []"

definition hdr_get :: "header \<Rightarrow> string \<Rightarrow> pyerr + pyval" where
  "hdr_get h k =
     (if k \<in> set commentary_keywords then
        (case filter (\<lambda>c. fst c = k) h of
           [] \<Rightarrow> Inl (KeyError k)
         | c # cs \<Rightarrow> Inr (PList (map (\<lambda>c. card_text (fst (snd c))) (c # cs))))
      else (case map_of h k of None \<Rightarrow> Inl (KeyError k) | Some vc \<Rightarrow> Inr (fst vc)))"

definition hdr_del :: "string \<Rightarrow> header \<Rightarrow> header" where
  "hdr_del k h = filter (\<lambda>c. fst c \<noteq> k) h"

text \<open>
  The keyword catalog \<^verbatim>\<open>header_content.csv\<close>: one row per keyword. An empty cell of the
  column \<^verbatim>\<open>Allowed values\<close> is read as a missing value, which has no \<open>split\<close>.
\<close>

record schema_row =
  Keyword :: string
  Type :: string
  Allowed_values :: "string option"
  Comment :: string

type_synonym schema = "schema_row list"

text \<open>
  A calibration table (\<^verbatim>\<open>preamp_gains.csv\<close>, \<^verbatim>\<open>read_noises.csv\<close>): its column names and its
  rows; a row gives a cell per column, and a cell the file leaves out is NaN.
\<close>

record calib_table =
  columns :: "string list"
  table_rows :: "(string \<times> pyval) list list"

definition cell :: "(string \<times> pyval) list \<Rightarrow> string \<Rightarrow> pyval" where
  "cell r c = (case map_of r c of None \<Rightarrow> PFloat NaN | Some v \<Rightarrow> v)"

definition has_column :: "calib_table \<Rightarrow> string \<Rightarrow> bool" where
  "has_column t c = (c \<in> set (columns t))"

subsection \<open>Loops and exceptions\<close>

text \<open>
  A \<open>for\<close> loop whose body may raise: the log grows in order, and the first exception
  ends the loop with the log written so far.
\<close>

fun for_each :: "('a \<Rightarrow> outcome) \<Rightarrow> 'a list \<Rightarrow> outcome" where
  "for_each body [] = ([], None)"
| "for_each body (x # xs) =
     (case body x of
        (l, Some e) \<Rightarrow> (l, Some e)
      | (l, None) \<Rightarrow> (case for_each body xs of (l', r) \<Rightarrow> (l @ l', r)))"

text \<open>Evaluating an expression that may raise, then going on with its value.\<close>

definition raising :: "pyerr + 'a \<Rightarrow> ('a \<Rightarrow> outcome) \<Rightarrow> outcome" where
  "raising x k = (case x of Inl e \<Rightarrow> ([], Some e) | Inr v \<Rightarrow> k v)"

text \<open>\<open>try: body except Exception as e: handler(e)\<close>.\<close>

definition try_except :: "outcome \<Rightarrow> (pyerr \<Rightarrow> outcome) \<Rightarrow> outcome" where
  "try_except body handler =
     (case body of
        (l, Some e) \<Rightarrow> (case handler e of (l', r) \<Rightarrow> (l @ l', r))
      | (l, None) \<Rightarrow> (l, None))"

text \<open>One statement after another.\<close>

definition seq :: "outcome \<Rightarrow> outcome \<Rightarrow> outcome" where
  "seq a b =
     (case a of
        (l, Some e) \<Rightarrow> (l, Some e)
      | (l, None) \<Rightarrow> (case b of (l', r) \<Rightarrow> (l @ l', r)))"

text \<open>
  A loop whose body also changes the element it visits: the headers are shared by all the
  checks, so a change stays after the check, and after an exception too.
\<close>

fun for_each_upd :: "('a \<Rightarrow> 'a \<times> outcome) \<Rightarrow> 'a list \<Rightarrow> 'a list \<times> outcome" where
  "for_each_upd body [] = ([], [], None)"
| "for_each_upd body (x # xs) =
     (case body x of
        (x', l, Some e) \<Rightarrow> (x' # xs, l, Some e)
      | (x', l, None) \<Rightarrow>
          (case for_each_upd body xs of (xs', l', r) \<Rightarrow> (x' # xs', l @ l', r)))"

text \<open>A list comprehension whose element expression may raise.\<close>

fun map_raising :: "('a \<Rightarrow> pyerr + 'b) \<Rightarrow> 'a list \<Rightarrow> pyerr + 'b list" where
  "map_raising f [] = Inr []"
| "map_raising f (x # xs) =
     (case f x of
        Inl e \<Rightarrow> Inl e
      | Inr y \<Rightarrow> (case map_raising f xs of Inl e \<Rightarrow> Inl e | Inr ys \<Rightarrow> Inr (y # ys)))"

section \<open>The class constants\<close>

definition var_types :: "string \<Rightarrow> pyerr + pytype" where
  "var_types t =
     (if t = ''float'' then Inr Tfloat
      else if t = ''integer'' then Inr Tint
      else if t = ''string'' then Inr Tstr
      else if t = ''boolean'' then Inr Tbool
      else Inl (KeyError t))"

definition kws_specific_values :: "string list" where
  "kws_specific_values =
     [''BITPIX'', ''INSTMODE'', ''SYNCMODE'', ''FILTER'', ''OBSTYPE'', ''ACQMODE'',
      ''PREAMP'', ''READRATE'', ''VSHIFT'', ''TRIGGER'', ''EMMODE'', ''SHUTTER'',
      ''TEMPST'', ''VCLKAMP'', ''CTRLINTE'', ''WPSEL'', ''CALW'']"



definition kws_fixed_str_size :: "(string \<times> nat) list" where
  "kws_fixed_str_size = [(''PROJID'', 15), (''OBJECT'', 30), (''OBSERVER'', 54)]"


section \<open>The logging helpers\<close>

definition compare_numbers :: "pyval \<Rightarrow> pyval \<Rightarrow> pyval \<Rightarrow> string \<Rightarrow> outcome" where
  "compare_numbers expected received filename func_name =
     raising (np_allclose expected received) (\<lambda>close.
       (if \<not> close then [Compare_numbers func_name filename expected received] else [], None))"

definition compare_lists :: "string list \<Rightarrow> string list \<Rightarrow> pyval \<Rightarrow> string \<Rightarrow> outcome" where
  "compare_lists expected received filename func_name =
     (let e = set expected; r = set received in
      (if e \<noteq> r then [Compare_lists func_name filename ((e - r) \<union> (r - e))] else [], None))"


definition verify_type :: "string \<Rightarrow> pyval \<Rightarrow> pytype \<Rightarrow> pyval \<Rightarrow> string \<Rightarrow> outcome" where
  "verify_type kw v t filename func_name =
     (if \<not> isinstance v t then [Verify_type func_name filename kw t (type_of v)] else [], None)"

text \<open>\<open>not _min <= value <= _max\<close>: the second comparison is made only if the first holds.\<close>

definition kw_in_interval ::
  "pyfloat \<Rightarrow> pyfloat \<Rightarrow> pyval \<Rightarrow> string \<Rightarrow> pyval \<Rightarrow> string \<Rightarrow> outcome" where
  "kw_in_interval lo hi v kw filename func_name =
     raising (py_le (PFloat lo) v) (\<lambda>a.
       if a then
         raising (py_le v (PFloat hi)) (\<lambda>b.
           (if \<not> b then [Kw_in_interval func_name filename kw lo hi v] else [], None))
       else ([Kw_in_interval func_name filename kw lo hi v], None))"

definition py_in :: "pyval \<Rightarrow> pyval list \<Rightarrow> bool" where
  "py_in v l = list_ex (\<lambda>x. py_eq x v) l"

definition val_in_list :: "pyval \<Rightarrow> pyval list \<Rightarrow> string \<Rightarrow> pyval \<Rightarrow> string \<Rightarrow> outcome" where
  "val_in_list v l kw filename func_name =
     (if \<not> py_in v l then [Val_in_list func_name filename kw l v] else [], None)"


definition verify_str_size :: "pyval \<Rightarrow> nat \<Rightarrow> string \<Rightarrow> pyval \<Rightarrow> string \<Rightarrow> outcome" where
  "verify_str_size v str_size kw filename func_name =
     raising (py_len v) (\<lambda>n.
       (if n > str_size then [Verify_str_size func_name filename kw str_size n] else [], None))"

section \<open>The checks\<close>

subsection \<open>Presence of keywords and comments\<close>

definition missing_keywords_hdr :: "schema \<Rightarrow> header \<Rightarrow> header \<times> outcome" where
  "missing_keywords_hdr header_content hdr =
     (let hdr' = (if ''COMMENT'' \<in> set (keys hdr) then hdr_del ''COMMENT'' hdr else hdr);
          hdr_keywords = keys hdr';
          csv_keywords = map Keyword header_content
      in (hdr',
          raising (hdr_get hdr' ''FILENAME'') (\<lambda>filename.
            compare_lists csv_keywords hdr_keywords filename ''test_missing_keywords'')))"

definition test_missing_keywords :: "schema \<Rightarrow> header list \<Rightarrow> header list \<times> outcome" where
  "test_missing_keywords header_content hdrs_list =
     for_each_upd (missing_keywords_hdr header_content) hdrs_list"



subsection \<open>Types, intervals and enumerated values\<close>

definition keywords_types_row :: "header \<Rightarrow> schema_row \<Rightarrow> outcome" where
  "keywords_types_row hdr row =
     (let kw = Keyword row in
      try_except
        (raising (hdr_get hdr kw) (\<lambda>keyword_val.
         raising (var_types (Type row)) (\<lambda>t.
         raising (hdr_get hdr ''FILENAME'') (\<lambda>filename.
           verify_type kw keyword_val t filename ''test_keywords_types''))))
        (\<lambda>e. raising (hdr_get hdr ''FILENAME'') (\<lambda>filename.
           ([Caught ''test_keywords_types'' filename (Some kw) e], None))))"

definition test_keywords_types :: "schema \<Rightarrow> header list \<Rightarrow> outcome" where
  "test_keywords_types header_content hdrs_list =
     for_each (\<lambda>hdr. for_each (keywords_types_row hdr) header_content) hdrs_list"

text \<open>
  \<open>_min, _max = row["Allowed values"].split(",")\<close>: an empty cell has no \<open>split\<close>, and
  the unpacking needs exactly two fields. Then \<open>float(_min)\<close>, and \<open>float(_max)\<close> unless
  \<open>_max\<close> is the token \<open>inf\<close>.
\<close>

definition parse_interval :: "pylib \<Rightarrow> string option \<Rightarrow> pyerr + pyfloat \<times> pyfloat" where
  "parse_interval lib allowed =
     (case allowed of
        None \<Rightarrow> Inl AttributeError
      | Some s \<Rightarrow>
          (case split_comma s of
             [smin, smax] \<Rightarrow>
               (case float_of_str lib smin of
                  Inl e \<Rightarrow> Inl e
                | Inr lo \<Rightarrow>
                    if smax = ''inf'' then Inr (lo, PInf)
                    else (case float_of_str lib smax of
                            Inl e \<Rightarrow> Inl e
                          | Inr hi \<Rightarrow> Inr (lo, hi)))
           | _ \<Rightarrow> Inl (ValueError [])))"

definition kws_in_interval_row :: "pylib \<Rightarrow> header \<Rightarrow> schema_row \<Rightarrow> outcome" where
  "kws_in_interval_row lib hdr row =
     try_except
       (let keyword = Keyword row in
        raising (hdr_get hdr keyword) (\<lambda>v.
        raising (hdr_get hdr ''FILENAME'') (\<lambda>filename.
          if keyword \<notin> set kws_specific_values then
            raising (parse_interval lib (Allowed_values row)) (\<lambda>(lo, hi).
              kw_in_interval lo hi v keyword filename ''test_kws_in_interval'')
          else ([], None))))
       (\<lambda>e. raising (hdr_get hdr ''FILENAME'') (\<lambda>filename.
          ([Caught ''test_kws_in_interval'' filename None e], None)))"

definition test_kws_in_interval :: "pylib \<Rightarrow> schema \<Rightarrow> header list \<Rightarrow> outcome" where
  "test_kws_in_interval lib header_content hdrs_list =
     (let filtered_hdr_content =
            filter (\<lambda>row. Type row \<in> set [''integer'', ''float'']) header_content
      in for_each (\<lambda>hdr. for_each (kws_in_interval_row lib hdr) filtered_hdr_content) hdrs_list)"

text \<open>
  The allowed values of an enumerated keyword: the fields of the cell of its first catalog
  row, converted with \<open>int\<close> or \<open>float\<close> when the row's type is numeric.
\<close>

definition allowed_vals_of :: "pylib \<Rightarrow> schema \<Rightarrow> string \<Rightarrow> pyerr + pyval list" where
  "allowed_vals_of lib header_content kw =
     (case filter (\<lambda>r. Keyword r = kw) header_content of
        [] \<Rightarrow> Inl IndexError
      | row # _ \<Rightarrow>
          (case Allowed_values row of
             None \<Rightarrow> Inl AttributeError
           | Some s \<Rightarrow>
               (let allowed_vals = split_comma s; type' = Type row in
                if type' = ''integer'' then
                  map_raising (\<lambda>new_val. map_sum id PInt (int_of_str lib new_val)) allowed_vals
                else if type' = ''float'' then
                  map_raising (\<lambda>new_val. map_sum id PFloat (float_of_str lib new_val)) allowed_vals
                else Inr (map PStr allowed_vals))))"

definition kws_specific_vals_kw :: "pylib \<Rightarrow> schema \<Rightarrow> header \<Rightarrow> string \<Rightarrow> outcome" where
  "kws_specific_vals_kw lib header_content hdr kw =
     raising (allowed_vals_of lib header_content kw) (\<lambda>allowed_vals.
     raising (hdr_get hdr ''FILENAME'') (\<lambda>file_name.
     raising (hdr_get hdr kw) (\<lambda>v.
       seq (val_in_list v allowed_vals kw file_name ''test_kws_specific_vals'')
           (if py_in v allowed_vals then ([], None) else ([], Some AssertionError)))))"

definition test_kws_specific_vals :: "pylib \<Rightarrow> schema \<Rightarrow> header list \<Rightarrow> outcome" where
  "test_kws_specific_vals lib header_content hdrs_list =
     for_each (\<lambda>hdr. for_each (kws_specific_vals_kw lib header_content hdr) kws_specific_values)
       hdrs_list"

subsection \<open>Patterns and sizes\<close>



definition kw_sizes_kw :: "header \<Rightarrow> string \<times> nat \<Rightarrow> outcome" where
  "kw_sizes_kw hdr ks =
     (case ks of (kw, str_size) \<Rightarrow>
        raising (hdr_get hdr kw) (\<lambda>kw_value.
        raising (hdr_get hdr ''FILENAME'') (\<lambda>filename.
          verify_str_size kw_value str_size kw filename ''test_kw_sizes'')))"

definition test_kw_sizes :: "header list \<Rightarrow> outcome" where
  "test_kw_sizes hdrs_list =
     for_each (\<lambda>hdr. for_each (kw_sizes_kw hdr) kws_fixed_str_size) hdrs_list"

subsection \<open>Waveplate position, COMMENT, simulated mode, observer\<close>

definition WPPOS_hdr :: "header \<Rightarrow> outcome" where
  "WPPOS_hdr hdr =
     raising (hdr_get hdr ''INSTMODE'') (\<lambda>instmode.
     raising (hdr_get hdr ''WPPOS'') (\<lambda>wppos.
       if py_eq instmode (PStr ''POLAR'') \<and> py_eq wppos (PInt 0) then
         raising (hdr_get hdr ''FILENAME'') (\<lambda>filename.
           ([], Some (ValueError
              [PStr ''The value WPPOS=0 was found the polarimetric mode.'', filename])))
       else ([], None)))"

definition test_WPPOS :: "header list \<Rightarrow> outcome" where
  "test_WPPOS hdrs_list = for_each WPPOS_hdr hdrs_list"







subsection \<open>Fixed observatory and instrument constants\<close>

text \<open>
  The decimal constants of the source stand for the rationals they denote; the float
  nearest to one differs from it far below the tolerance of the comparison.
\<close>

definition observatory_coords_hdr :: "header \<Rightarrow> outcome" where
  "observatory_coords_hdr hdr =
     raising (hdr_get hdr ''FILENAME'') (\<lambda>filename.
       seq (raising (hdr_get hdr ''OBSLONG'') (\<lambda>received.
              compare_numbers (PFloat (Fin (- (455825 / 10000)))) received filename
                ''test_observatory_coords''))
      (seq (raising (hdr_get hdr ''OBSLAT'') (\<lambda>received.
              compare_numbers (PFloat (Fin (- (22534 / 1000)))) received filename
                ''test_observatory_coords''))
           (raising (hdr_get hdr ''OBSALT'') (\<lambda>received.
              compare_numbers (PFloat (Fin 1864)) received filename
                ''test_observatory_coords''))))"

definition test_observatory_coords :: "header list \<Rightarrow> outcome" where
  "test_observatory_coords hdrs_list = for_each observatory_coords_hdr hdrs_list"

definition equinox_hdr :: "header \<Rightarrow> outcome" where
  "equinox_hdr hdr =
     raising (hdr_get hdr ''FILENAME'') (\<lambda>filename.
     raising (hdr_get hdr ''EQUINOX'') (\<lambda>received.
       compare_numbers (PFloat (Fin 2000)) received filename ''test_equinox''))"

definition test_equinox :: "header list \<Rightarrow> outcome" where
  "test_equinox hdrs_list = for_each equinox_hdr hdrs_list"

definition BSCALE_hdr :: "header \<Rightarrow> outcome" where
  "BSCALE_hdr hdr =
     raising (hdr_get hdr ''FILENAME'') (\<lambda>filename.
     raising (hdr_get hdr ''BSCALE'') (\<lambda>received.
       compare_numbers (PInt 1) received filename ''test_BSCALE''))"

definition test_BSCALE :: "header list \<Rightarrow> outcome" where
  "test_BSCALE hdrs_list = for_each BSCALE_hdr hdrs_list"

definition BZERO_hdr :: "header \<Rightarrow> outcome" where
  "BZERO_hdr hdr =
     raising (hdr_get hdr ''BZERO'') (\<lambda>received.
     raising (hdr_get hdr ''FILENAME'') (\<lambda>filename.
       compare_numbers (PInt (2 ^ 15)) received filename ''test_BZERO''))"

definition test_BZERO :: "header list \<Rightarrow> outcome" where
  "test_BZERO hdrs_list = for_each BZERO_hdr hdrs_list"

definition BITPIX_hdr :: "header \<Rightarrow> outcome" where
  "BITPIX_hdr hdr =
     raising (hdr_get hdr ''FILENAME'') (\<lambda>filename.
     raising (hdr_get hdr ''BITPIX'') (\<lambda>received.
       compare_numbers (PInt 16) received filename ''test_BITPIX''))"

definition test_BITPIX :: "header list \<Rightarrow> outcome" where
  "test_BITPIX hdrs_list = for_each BITPIX_hdr hdrs_list"

definition NAXIS_hdr :: "header \<Rightarrow> outcome" where
  "NAXIS_hdr hdr =
     raising (hdr_get hdr ''FILENAME'') (\<lambda>filename.
     raising (hdr_get hdr ''NAXIS'') (\<lambda>received.
       compare_numbers (PInt 2) received filename ''test_NAXIS''))"

definition test_NAXIS :: "header list \<Rightarrow> outcome" where
  "test_NAXIS hdrs_list = for_each NAXIS_hdr hdrs_list"

subsection \<open>Calibration tables\<close>

text \<open>
  \<open>em_mode = hdr["EMMODE"]\<close>, then \<open>if em_mode != "Conventional": em_mode = "EM"\<close>:
  the two statements that open both calibration checks.
\<close>

definition em_mode_key :: "pyval \<Rightarrow> pyval" where
  "em_mode_key em_mode = (if \<not> py_eq em_mode (PStr ''Conventional'') then PStr ''EM'' else em_mode)"

text \<open>
  The boolean row filter on the three key columns and the selection of the rows it keeps;
  reading a column the table does not have raises.
\<close>

definition select_rows ::
  "calib_table \<Rightarrow> pyval \<Rightarrow> pyval \<Rightarrow> pyval \<Rightarrow> pyerr + (string \<times> pyval) list list" where
  "select_rows t em_mode readout preamp =
     (if \<not> has_column t ''EM Mode'' then Inl (KeyError ''EM Mode'')
      else if \<not> has_column t ''Readout Rate'' then Inl (KeyError ''Readout Rate'')
      else if \<not> has_column t ''Preamp'' then Inl (KeyError ''Preamp'')
      else Inr (filter (\<lambda>r. py_eq (cell r ''EM Mode'') em_mode
                         \<and> py_eq (cell r ''Readout Rate'') readout
                         \<and> py_eq (cell r ''Preamp'') preamp) (table_rows t)))"

text \<open>\<open>line[serial_number].values[0]\<close>: the column must exist, and a first row.\<close>

definition first_value ::
  "calib_table \<Rightarrow> (string \<times> pyval) list list \<Rightarrow> string \<Rightarrow> pyerr + pyval" where
  "first_value t line serial_number =
     (if \<not> has_column t serial_number then Inl (KeyError serial_number)
      else (case line of [] \<Rightarrow> Inl IndexError | r # _ \<Rightarrow> Inr (cell r serial_number)))"

definition ccd_gain_hdr :: "pylib \<Rightarrow> calib_table \<Rightarrow> header \<Rightarrow> outcome" where
  "ccd_gain_hdr lib ccd_gains hdr =
     raising (hdr_get hdr ''EMMODE'') (\<lambda>em_mode0.
     let em_mode = em_mode_key em_mode0 in
     raising (hdr_get hdr ''READRATE'') (\<lambda>readout.
     raising (hdr_get hdr ''PREAMP'') (\<lambda>preamp_str.
     raising (py_last preamp_str) (\<lambda>last_char.
     raising (float_of_str lib last_char) (\<lambda>preamp.
     raising (hdr_get hdr ''CCDSERN'') (\<lambda>ccdsern.
     let serial_number = py_format lib ccdsern in
     raising (hdr_get hdr ''GAIN'') (\<lambda>gain.
     raising (select_rows ccd_gains em_mode readout (PFloat preamp)) (\<lambda>line.
     raising (hdr_get hdr ''FILENAME'') (\<lambda>filename.
     raising (first_value ccd_gains line serial_number) (\<lambda>expected.
       compare_numbers expected gain filename ''test_ccd_gain''))))))))))"

definition test_ccd_gain :: "pylib \<Rightarrow> calib_table \<Rightarrow> header list \<Rightarrow> outcome" where
  "test_ccd_gain lib ccd_gains hdrs_list = for_each (ccd_gain_hdr lib ccd_gains) hdrs_list"

definition read_noise_hdr :: "pylib \<Rightarrow> calib_table \<Rightarrow> header \<Rightarrow> outcome" where
  "read_noise_hdr lib read_noises hdr =
     raising (hdr_get hdr ''EMMODE'') (\<lambda>em_mode0.
     let em_mode = em_mode_key em_mode0 in
     raising (hdr_get hdr ''READRATE'') (\<lambda>readout.
     raising (hdr_get hdr ''PREAMP'') (\<lambda>preamp_str.
     raising (py_last preamp_str) (\<lambda>last_char.
     raising (float_of_str lib last_char) (\<lambda>preamp.
     raising (hdr_get hdr ''CCDSERN'') (\<lambda>ccdsern.
     let serial_number = py_format lib ccdsern in
     raising (hdr_get hdr ''RDNOISE'') (\<lambda>read_noise.
     raising (select_rows read_noises em_mode readout (PFloat preamp)) (\<lambda>line.
     raising (hdr_get hdr ''FILENAME'') (\<lambda>filename.
     raising (first_value read_noises line serial_number) (\<lambda>expected.
       compare_numbers expected read_noise filename ''test_read_noise''))))))))))"

definition test_read_noise :: "pylib \<Rightarrow> calib_table \<Rightarrow> header list \<Rightarrow> outcome" where
  "test_read_noise lib read_noises hdrs_list =
     for_each (read_noise_hdr lib read_noises) hdrs_list"

section \<open>The suite as a run of test methods\<close>




section \<open>Conditions named by the specification, and an instance of the runtime\<close>

text \<open>
  The condition of the waveplate-position rule, in the specification's words: the header
  has \<open>INSTMODE\<close> equal to \<open>POLAR\<close> and \<open>WPPOS\<close> equal to 0. A header without one of the
  two keywords does not satisfy it.
\<close>

definition polar_wppos_zero :: "header \<Rightarrow> bool" where
  "polar_wppos_zero hdr =
     (case (hdr_get hdr ''INSTMODE'', hdr_get hdr ''WPPOS'') of
        (Inr instmode, Inr wppos) \<Rightarrow> py_eq instmode (PStr ''POLAR'') \<and> py_eq wppos (PInt 0)
      | _ \<Rightarrow> False)"

text \<open>
  An instance of the runtime functions for the examples: \<open>float\<close> and \<open>int\<close> on the
  decimal literals the examples use (any other string is refused), integers formatted by
  the same table, and a pattern matcher that accepts everything.
\<close>

definition literals :: "(string \<times> int) list" where
  "literals = [(''0'', 0), (''1'', 1), (''2'', 2), (''8'', 8), (''10'', 10), (''16'', 16)]"

definition example_lib :: pylib where
  "example_lib =
     \<lparr>float_of_str = (\<lambda>s. case map_of literals s of
                              None \<Rightarrow> Inl (ValueError [])
                            | Some i \<Rightarrow> Inr (Fin (of_int i))),
      int_of_str = (\<lambda>s. case map_of literals s of
                            None \<Rightarrow> Inl (ValueError [])
                          | Some i \<Rightarrow> Inr i),
      format_val = (\<lambda>v. case v of
                            PInt i \<Rightarrow> (case map_of (map (\<lambda>(s, i). (i, s)) literals) i of
                                         None \<Rightarrow> [] | Some s \<Rightarrow> s)
                          | _ \<Rightarrow> []),
      re_match = (\<lambda>p s. True)\<rparr>"

section \<open>Properties of the checks\<close>

subsection \<open>Loops and lookups\<close>

lemma in_commentary_keywords [simp]:
  "k \<in> set commentary_keywords \<longleftrightarrow>
     k = '''' \<or> k = ''COMMENT'' \<or> k = ''HISTORY'' \<or> k = ''END''"
  by (simp add: commentary_keywords_def)

lemma raising_Inr [simp]: "raising (Inr v) k = k v"
  by (simp add: raising_def)

lemma raising_Inl [simp]: "raising (Inl e) k = ([], Some e)"
  by (simp add: raising_def)

lemma for_each_Cons_ok:
  "body x = (l, None) \<Longrightarrow>
   for_each body (x # xs) = (l @ fst (for_each body xs), snd (for_each body xs))"
  by (simp split: prod.splits)

subsection \<open>Fixed-size strings\<close>

lemma kw_sizes_kw_str:
  "hdr_get hdr ''FILENAME'' = Inr filename \<Longrightarrow> hdr_get hdr kw = Inr (PStr s) \<Longrightarrow>
   kw_sizes_kw hdr (kw, n) =
     (if length s > n then [Verify_str_size ''test_kw_sizes'' filename kw n (length s)] else [],
      None)"
  by (simp add: kw_sizes_kw_def verify_str_size_def)

text \<open>
  Claim C7. For a header that stores strings under \<open>PROJID\<close>, \<open>OBJECT\<close> and \<open>OBSERVER\<close>
  (and carries its \<open>FILENAME\<close> label), the fixed-size string check logs, for each of the
  three keywords in this order, one violation citing the keyword, its limit (15, 30, 54) and
  the actual length exactly when the length exceeds the limit, and nothing when the length
  is at most the limit; the check then goes on with the remaining headers.
\<close>

theorem kw_sizes_violation_iff:
  assumes "hdr_get hdr ''FILENAME'' = Inr filename"
    and "hdr_get hdr ''PROJID'' = Inr (PStr projid)"
    and "hdr_get hdr ''OBJECT'' = Inr (PStr obj)"
    and "hdr_get hdr ''OBSERVER'' = Inr (PStr observer)"
  shows "test_kw_sizes (hdr # hdrs) =
     ((if length projid > 15
       then [Verify_str_size ''test_kw_sizes'' filename ''PROJID'' 15 (length projid)] else []) @
      (if length obj > 30
       then [Verify_str_size ''test_kw_sizes'' filename ''OBJECT'' 30 (length obj)] else []) @
      (if length observer > 54
       then [Verify_str_size ''test_kw_sizes'' filename ''OBSERVER'' 54 (length observer)]
       else []) @
      fst (test_kw_sizes hdrs),
      snd (test_kw_sizes hdrs))"
proof -
  have "for_each (kw_sizes_kw hdr) kws_fixed_str_size =
     ((if length projid > 15
       then [Verify_str_size ''test_kw_sizes'' filename ''PROJID'' 15 (length projid)] else []) @
      (if length obj > 30
       then [Verify_str_size ''test_kw_sizes'' filename ''OBJECT'' 30 (length obj)] else []) @
      (if length observer > 54
       then [Verify_str_size ''test_kw_sizes'' filename ''OBSERVER'' 54 (length observer)]
       else []),
      None)"
    using assms by (simp add: kws_fixed_str_size_def kw_sizes_kw_str)
  then show ?thesis
    unfolding test_kw_sizes_def by (simp split: prod.splits)
qed

text \<open>
  An \<open>OBSERVER\<close> of 60 characters, with a \<open>PROJID\<close> of exactly 15: one violation, citing
  \<open>OBSERVER\<close>, 54 and 60.
\<close>

theorem kw_sizes_violation_iff_witness:
  "test_kw_sizes
     [[(''FILENAME'', PStr ''a.fits'', ''name''),
       (''PROJID'', PStr (replicate 15 CHR ''p''), ''id''),
       (''OBJECT'', PStr ''HD1'', ''object''),
       (''OBSERVER'', PStr (replicate 60 CHR ''x''), ''observer'')]] =
   ([Verify_str_size ''test_kw_sizes'' (PStr ''a.fits'') ''OBSERVER'' 54 60], None)"
proof -
  let ?h = "[(''FILENAME'', PStr ''a.fits'', ''name''),
       (''PROJID'', PStr (replicate 15 CHR ''p''), ''id''),
       (''OBJECT'', PStr ''HD1'', ''object''),
       (''OBSERVER'', PStr (replicate 60 CHR ''x''), ''observer'')]"
  have 1: "hdr_get ?h ''FILENAME'' = Inr (PStr ''a.fits'')"
    by (simp add: hdr_get_def)
  have 2: "hdr_get ?h ''PROJID'' = Inr (PStr (replicate 15 CHR ''p''))"
    by (simp add: hdr_get_def)
  have 3: "hdr_get ?h ''OBJECT'' = Inr (PStr ''HD1'')"
    by (simp add: hdr_get_def)
  have 4: "hdr_get ?h ''OBSERVER'' = Inr (PStr (replicate 60 CHR ''x''))"
    by (simp add: hdr_get_def)
  have 5: "test_kw_sizes [] = ([], None)"
    by (simp add: test_kw_sizes_def)
  show ?thesis
    using kw_sizes_violation_iff [OF 1 2 3 4, of "[]"] by (simp add: 5)
qed

subsection \<open>Presence of keywords\<close>

lemma map_of_filter_other:
  "k \<noteq> k' \<Longrightarrow> map_of (filter (\<lambda>c. fst c \<noteq> k') h) k = map_of h k"
  by (induction h) auto

lemma filter_filter_other:
  "k \<noteq> k' \<Longrightarrow>
   filter (\<lambda>c. fst c = k) (filter (\<lambda>c. fst c \<noteq> k') h) = filter (\<lambda>c. fst c = k) h"
  by (induction h) auto

lemma hdr_get_hdr_del:
  assumes "k \<noteq> k'"
  shows "hdr_get (hdr_del k' h) k = hdr_get h k"
proof -
  have f: "filter (\<lambda>c. fst c = k) (filter (\<lambda>c. fst c \<noteq> k') h) = filter (\<lambda>c. fst c = k) h"
    using assms by (rule filter_filter_other)
  have m: "map_of (filter (\<lambda>c. fst c \<noteq> k') h) k = map_of h k"
    using assms by (rule map_of_filter_other)
  show ?thesis
    unfolding hdr_get_def hdr_del_def f m ..
qed

lemma keys_hdr_del: "set (keys (hdr_del k h)) = set (keys h) - {k}"
  by (auto simp: keys_def hdr_del_def)

lemma hdr_del_absent: "k \<notin> set (keys h) \<Longrightarrow> hdr_del k h = h"
  by (induction h) (auto simp: keys_def hdr_del_def)

lemma del_comment_if:
  "(if ''COMMENT'' \<in> set (keys h) then hdr_del ''COMMENT'' h else h) = hdr_del ''COMMENT'' h"
  by (simp add: hdr_del_absent)

lemma for_each_upd_Cons_ok:
  "body x = (x', l, None) \<Longrightarrow>
   for_each_upd body (x # xs) =
     (x' # fst (for_each_upd body xs), l @ fst (snd (for_each_upd body xs)),
      snd (snd (for_each_upd body xs)))"
  by (simp split: prod.splits)

lemma missing_keywords_hdr_ok:
  assumes "hdr_get hdr ''FILENAME'' = Inr filename"
  shows "missing_keywords_hdr header_content hdr =
     (hdr_del ''COMMENT'' hdr,
      (if set (map Keyword header_content) \<noteq> set (keys hdr) - {''COMMENT''}
       then [Compare_lists ''test_missing_keywords'' filename
               ((set (map Keyword header_content) - (set (keys hdr) - {''COMMENT''})) \<union>
                ((set (keys hdr) - {''COMMENT''}) - set (map Keyword header_content)))]
       else []),
      None)"
  using assms
  by (simp add: missing_keywords_hdr_def del_comment_if hdr_get_hdr_del compare_lists_def
      keys_hdr_del Let_def)

text \<open>
  Claim C2. For a header (carrying its \<open>FILENAME\<close> label), the presence check removes the
  \<open>COMMENT\<close> cards and logs a violation if and only if the set of the remaining keywords, that
  is the header's keyword set without \<open>COMMENT\<close>, differs from the set of the catalog's
  keywords; the violation carries the symmetric difference of the two sets. Only the two
  sets enter the comparison, so order and repetition of keywords play no part, and equal
  sets give no violation. The check then goes on with the remaining headers.
\<close>

theorem missing_keywords_violation_iff:
  assumes "hdr_get hdr ''FILENAME'' = Inr filename"
  shows "test_missing_keywords header_content (hdr # hdrs) =
     (hdr_del ''COMMENT'' hdr # fst (test_missing_keywords header_content hdrs),
      (if set (map Keyword header_content) \<noteq> set (keys hdr) - {''COMMENT''}
       then [Compare_lists ''test_missing_keywords'' filename
               ((set (map Keyword header_content) - (set (keys hdr) - {''COMMENT''})) \<union>
                ((set (keys hdr) - {''COMMENT''}) - set (map Keyword header_content)))]
       else []) @ fst (snd (test_missing_keywords header_content hdrs)),
      snd (snd (test_missing_keywords header_content hdrs)))"
  unfolding test_missing_keywords_def
  by (rule for_each_upd_Cons_ok) (rule missing_keywords_hdr_ok [OF assms])

text \<open>
  A header with a repeated \<open>OBJECT\<close> and a \<open>COMMENT\<close>, against a catalog of \<open>FILENAME\<close>
  and \<open>FILTER\<close>: the difference is \<open>FILTER\<close> (missing) and \<open>OBJECT\<close> (unexpected).
\<close>

theorem missing_keywords_violation_iff_witness:
  "test_missing_keywords
     [\<lparr>Keyword = ''FILENAME'', Type = ''string'', Allowed_values = None, Comment = ''name''\<rparr>,
      \<lparr>Keyword = ''FILTER'', Type = ''string'', Allowed_values = Some ''V,R'',
        Comment = ''filter''\<rparr>]
     [[(''OBJECT'', PStr ''HD1'', ''object''), (''FILENAME'', PStr ''a.fits'', ''name''),
       (''COMMENT'', PStr ''x'', ''''), (''OBJECT'', PStr ''HD1'', ''object'')]] =
   ([[(''OBJECT'', PStr ''HD1'', ''object''), (''FILENAME'', PStr ''a.fits'', ''name''),
      (''OBJECT'', PStr ''HD1'', ''object'')]],
    [Compare_lists ''test_missing_keywords'' (PStr ''a.fits'') {''FILTER'', ''OBJECT''}], None)"
proof -
  let ?s = "[\<lparr>Keyword = ''FILENAME'', Type = ''string'', Allowed_values = None,
        Comment = ''name''\<rparr>,
      \<lparr>Keyword = ''FILTER'', Type = ''string'', Allowed_values = Some ''V,R'',
        Comment = ''filter''\<rparr>]"
  let ?h = "[(''OBJECT'', PStr ''HD1'', ''object''), (''FILENAME'', PStr ''a.fits'', ''name''),
       (''COMMENT'', PStr ''x'', ''''), (''OBJECT'', PStr ''HD1'', ''object'')]"
  have 1: "hdr_get ?h ''FILENAME'' = Inr (PStr ''a.fits'')"
    by (simp add: hdr_get_def)
  have 2: "test_missing_keywords ?s [] = ([], [], None)"
    by (simp add: test_missing_keywords_def)
  have 3: "(set (map Keyword ?s) - (set (keys ?h) - {''COMMENT''})) \<union>
           ((set (keys ?h) - {''COMMENT''}) - set (map Keyword ?s)) = {''FILTER'', ''OBJECT''}"
    by code_simp
  have 4: "set (map Keyword ?s) \<noteq> set (keys ?h) - {''COMMENT''}"
    by code_simp
  have 5: "hdr_del ''COMMENT'' ?h =
      [(''OBJECT'', PStr ''HD1'', ''object''), (''FILENAME'', PStr ''a.fits'', ''name''),
       (''OBJECT'', PStr ''HD1'', ''object'')]"
    by (simp add: hdr_del_def)
  show ?thesis
    using missing_keywords_violation_iff [OF 1, of ?s "[]"]
    unfolding 2 3 5 using 4 by simp
qed

subsection \<open>The COMMENT check\<close>

lemma filter_key_Cons_in_keys:
  "filter (\<lambda>c. fst c = k) h = c # cs \<Longrightarrow> k \<in> set (keys h)"
proof -
  assume "filter (\<lambda>c. fst c = k) h = c # cs"
  then have "c \<in> set (filter (\<lambda>c. fst c = k) h)"
    by simp
  then show ?thesis
    by (auto simp: keys_def)
qed

lemma hdr_get_in_keys: "hdr_get h k = Inr v \<Longrightarrow> k \<in> set (keys h)"
  unfolding hdr_get_def
  by (auto simp: keys_def split: option.splits list.splits if_splits dest: map_of_SomeD
      filter_key_Cons_in_keys intro: rev_image_eqI)







subsection \<open>The waveplate-position check\<close>

lemma WPPOS_hdr_ok:
  assumes "hdr_get h ''INSTMODE'' = Inr im" and "hdr_get h ''WPPOS'' = Inr wp"
  shows "WPPOS_hdr h =
     (if polar_wppos_zero h then
        raising (hdr_get h ''FILENAME'') (\<lambda>filename.
          ([], Some (ValueError
             [PStr ''The value WPPOS=0 was found the polarimetric mode.'', filename])))
      else ([], None))"
  using assms by (simp add: WPPOS_hdr_def polar_wppos_zero_def)

lemma raising_not_None: "(\<And>v. snd (k v) \<noteq> None) \<Longrightarrow> snd (raising x k) \<noteq> None"
  by (cases x) auto

text \<open>
  Claim C4, amended. For every batch whose headers all carry \<open>INSTMODE\<close> and \<open>WPPOS\<close>: if
  some header has \<open>INSTMODE\<close> equal to \<open>POLAR\<close> and \<open>WPPOS\<close> equal to 0, the check logs
  nothing and raises, at the first such header, a \<open>ValueError\<close> whose arguments are the
  message and that header's \<open>FILENAME\<close> value, without examining the headers after it; if no
  header satisfies both conditions, the check raises nothing and logs nothing.
\<close>

theorem WPPOS_raises_at_first_offender:
  assumes "\<forall>h \<in> set hdrs. \<exists>im wp. hdr_get h ''INSTMODE'' = Inr im \<and> hdr_get h ''WPPOS'' = Inr wp"
  shows "test_WPPOS hdrs =
     (case find polar_wppos_zero hdrs of
        None \<Rightarrow> ([], None)
      | Some h \<Rightarrow>
          raising (hdr_get h ''FILENAME'') (\<lambda>filename.
            ([], Some (ValueError
               [PStr ''The value WPPOS=0 was found the polarimetric mode.'', filename]))))"
  using assms
proof (induction hdrs)
  case Nil
  then show ?case by (simp add: test_WPPOS_def)
next
  case (Cons h hdrs)
  then obtain im wp where g: "hdr_get h ''INSTMODE'' = Inr im" "hdr_get h ''WPPOS'' = Inr wp"
    by auto
  show ?case
  proof (cases "polar_wppos_zero h")
    case True
    have "snd (WPPOS_hdr h) \<noteq> None"
      using True by (simp add: WPPOS_hdr_ok [OF g] raising_not_None)
    moreover have "fst (WPPOS_hdr h) = []"
      using True by (cases "hdr_get h ''FILENAME''") (simp_all add: WPPOS_hdr_ok [OF g])
    ultimately have "for_each WPPOS_hdr (h # hdrs) = WPPOS_hdr h"
      by (cases "WPPOS_hdr h") auto
    then show ?thesis
      using True by (simp add: test_WPPOS_def WPPOS_hdr_ok [OF g])
  next
    case False
    have "WPPOS_hdr h = ([], None)"
      using False by (simp add: WPPOS_hdr_ok [OF g])
    then show ?thesis
      using False Cons by (simp add: test_WPPOS_def split: prod.splits)
  qed
qed

text \<open>
  The second of three headers is the first in polarimetric mode at position 0: the error
  names it, and the third is not reached. With no such header the check returns.
\<close>

theorem WPPOS_raises_at_first_offender_witness:
  "test_WPPOS
     [[(''FILENAME'', PStr ''a.fits'', ''name''), (''INSTMODE'', PStr ''PHOT'', ''mode''),
       (''WPPOS'', PInt 0, ''position'')],
      [(''FILENAME'', PStr ''b.fits'', ''name''), (''INSTMODE'', PStr ''POLAR'', ''mode''),
       (''WPPOS'', PInt 0, ''position'')],
      [(''FILENAME'', PStr ''c.fits'', ''name''), (''INSTMODE'', PStr ''POLAR'', ''mode''),
       (''WPPOS'', PInt 0, ''position'')]] =
   ([], Some (ValueError
      [PStr ''The value WPPOS=0 was found the polarimetric mode.'', PStr ''b.fits'']))
   \<and> test_WPPOS
     [[(''FILENAME'', PStr ''a.fits'', ''name''), (''INSTMODE'', PStr ''PHOT'', ''mode''),
       (''WPPOS'', PInt 0, ''position'')],
      [(''FILENAME'', PStr ''d.fits'', ''name''), (''INSTMODE'', PStr ''POLAR'', ''mode''),
       (''WPPOS'', PInt 4, ''position'')]] = ([], None)"
proof -
  let ?a = "[(''FILENAME'', PStr ''a.fits'', ''name''), (''INSTMODE'', PStr ''PHOT'', ''mode''),
       (''WPPOS'', PInt 0, ''position'')]"
  let ?b = "[(''FILENAME'', PStr ''b.fits'', ''name''), (''INSTMODE'', PStr ''POLAR'', ''mode''),
       (''WPPOS'', PInt 0, ''position'')]"
  let ?c = "[(''FILENAME'', PStr ''c.fits'', ''name''), (''INSTMODE'', PStr ''POLAR'', ''mode''),
       (''WPPOS'', PInt 0, ''position'')]"
  let ?d = "[(''FILENAME'', PStr ''d.fits'', ''name''), (''INSTMODE'', PStr ''POLAR'', ''mode''),
       (''WPPOS'', PInt 4, ''position'')]"
  have 1: "\<forall>h \<in> set [?a, ?b, ?c]. \<exists>im wp. hdr_get h ''INSTMODE'' = Inr im \<and> hdr_get h ''WPPOS'' = Inr wp"
    by (simp add: hdr_get_def)
  have 2: "\<forall>h \<in> set [?a, ?d]. \<exists>im wp. hdr_get h ''INSTMODE'' = Inr im \<and> hdr_get h ''WPPOS'' = Inr wp"
    by (simp add: hdr_get_def)
  have pa: "\<not> polar_wppos_zero ?a" by (simp add: polar_wppos_zero_def hdr_get_def)
  have pb: "polar_wppos_zero ?b" by (simp add: polar_wppos_zero_def hdr_get_def fl_eq_def)
  have pd: "\<not> polar_wppos_zero ?d" by (simp add: polar_wppos_zero_def hdr_get_def fl_eq_def)
  have fb: "hdr_get ?b ''FILENAME'' = Inr (PStr ''b.fits'')" by (simp add: hdr_get_def)
  show ?thesis
    using WPPOS_raises_at_first_offender [OF 1] WPPOS_raises_at_first_offender [OF 2]
    by (simp add: pa pb pd fb)
qed

text \<open>
  The claim as first stated fails: a header in photometric mode that lacks \<open>WPPOS\<close> does
  not satisfy the two conditions, and yet the check raises, since it reads both keywords of
  every header.
\<close>

theorem WPPOS_missing_keyword_counterexample:
  "\<not> polar_wppos_zero [(''FILENAME'', PStr ''a.fits'', ''name''), (''INSTMODE'', PStr ''PHOT'', ''mode'')]
   \<and> test_WPPOS [[(''FILENAME'', PStr ''a.fits'', ''name''), (''INSTMODE'', PStr ''PHOT'', ''mode'')]]
       = ([], Some (KeyError ''WPPOS''))"
  by (simp add: polar_wppos_zero_def test_WPPOS_def WPPOS_hdr_def hdr_get_def)

subsection \<open>The interval check\<close>

lemma parse_interval_ok:
  assumes "split_comma s = [smin, smax]"
    and "float_of_str lib smin = Inr lo"
    and "if smax = ''inf'' then hi = PInf else float_of_str lib smax = Inr hi"
  shows "parse_interval lib (Some s) = Inr (lo, hi)"
  using assms by (simp add: parse_interval_def split: if_splits)

lemma kw_in_interval_num:
  assumes "num_of v = Some x"
  shows "kw_in_interval lo hi v kw filename func_name =
     (if fl_le lo x \<and> fl_le x hi then [] else [Kw_in_interval func_name filename kw lo hi v],
      None)"
  using assms by (simp add: kw_in_interval_def py_le_def)

lemma try_except_ok: "try_except (l, None) handler = (l, None)"
  by (simp add: try_except_def)

lemma kws_in_interval_row_ok:
  assumes "Keyword row \<notin> set kws_specific_values"
    and "hdr_get hdr (Keyword row) = Inr v" and "num_of v = Some x"
    and "hdr_get hdr ''FILENAME'' = Inr filename"
    and "Allowed_values row = Some s" and "split_comma s = [smin, smax]"
    and "float_of_str lib smin = Inr lo"
    and "if smax = ''inf'' then hi = PInf else float_of_str lib smax = Inr hi"
  shows "kws_in_interval_row lib hdr row =
     (if fl_le lo x \<and> fl_le x hi then []
      else [Kw_in_interval ''test_kws_in_interval'' filename (Keyword row) lo hi v], None)"
  using assms(1-5) parse_interval_ok [OF assms(6-8)]
  by (simp add: kws_in_interval_row_def kw_in_interval_num try_except_ok)

lemma for_each_single: "for_each body [x] = body x"
  by (cases "body x") (auto split: option.splits)

lemma test_kws_in_interval_single:
  "test_kws_in_interval lib rows [hdr] =
     for_each (kws_in_interval_row lib hdr)
       (filter (\<lambda>row. Type row \<in> set [''integer'', ''float'']) rows)"
  by (simp add: test_kws_in_interval_def for_each_single del: for_each.simps)

text \<open>
  Claim C5. For a header and a catalog row of numeric type whose keyword is not an
  enumerated one: when the cell of allowed values splits at its comma into exactly two
  fields, the first read by \<open>float\<close> as \<open>lo\<close> and the second either the token \<open>inf\<close>, giving
  \<open>hi = +\<infinity>\<close>, or read by \<open>float\<close> as \<open>hi\<close>, and the header stores a number under the
  keyword (and carries its \<open>FILENAME\<close> label), the interval check logs exactly one violation
  naming the keyword when the number is outside \<open>[lo, hi]\<close> and none when
  \<open>lo \<le> value \<le> hi\<close>, the bounds included; it then goes on with the remaining rows.
\<close>

theorem kws_in_interval_violation_iff:
  assumes "Keyword row \<notin> set kws_specific_values"
    and "Type row = ''integer'' \<or> Type row = ''float''"
    and "hdr_get hdr (Keyword row) = Inr v" and "num_of v = Some x"
    and "hdr_get hdr ''FILENAME'' = Inr filename"
    and "Allowed_values row = Some s" and "split_comma s = [smin, smax]"
    and "float_of_str lib smin = Inr lo"
    and "if smax = ''inf'' then hi = PInf else float_of_str lib smax = Inr hi"
  shows "parse_interval lib (Allowed_values row) = Inr (lo, hi) \<and>
     test_kws_in_interval lib (row # rows) [hdr] =
       ((if fl_le lo x \<and> fl_le x hi then []
         else [Kw_in_interval ''test_kws_in_interval'' filename (Keyword row) lo hi v])
        @ fst (test_kws_in_interval lib rows [hdr]),
        snd (test_kws_in_interval lib rows [hdr]))"
proof -
  have "kws_in_interval_row lib hdr row =
     (if fl_le lo x \<and> fl_le x hi then []
      else [Kw_in_interval ''test_kws_in_interval'' filename (Keyword row) lo hi v], None)"
    by (rule kws_in_interval_row_ok [OF assms(1) assms(3-9)])
  then show ?thesis
    using assms(2) parse_interval_ok [OF assms(7-9)] assms(6)
    unfolding test_kws_in_interval_single
    by (auto simp add: for_each_Cons_ok simp del: for_each.simps)
qed

text \<open>
  An exposure time of \<open>-1\<close> against the cell \<open>0,inf\<close> is logged; a value equal to the upper
  bound of the cell \<open>1,10\<close> is not.
\<close>

theorem kws_in_interval_violation_iff_witness:
  "test_kws_in_interval example_lib
     [\<lparr>Keyword = ''EXPTIME'', Type = ''float'', Allowed_values = Some ''0,inf'',
       Comment = ''exposure''\<rparr>]
     [[(''FILENAME'', PStr ''a.fits'', ''name''), (''EXPTIME'', PFloat (Fin (- 1)), ''exposure'')]] =
   ([Kw_in_interval ''test_kws_in_interval'' (PStr ''a.fits'') ''EXPTIME'' (Fin 0) PInf
       (PFloat (Fin (- 1)))], None)
   \<and> test_kws_in_interval example_lib
     [\<lparr>Keyword = ''NCYCLES'', Type = ''integer'', Allowed_values = Some ''1,10'',
       Comment = ''cycles''\<rparr>]
     [[(''FILENAME'', PStr ''b.fits'', ''name''), (''NCYCLES'', PInt 10, ''cycles'')]] =
   ([], None)"
proof -
  let ?ra = "\<lparr>Keyword = ''EXPTIME'', Type = ''float'', Allowed_values = Some ''0,inf'',
       Comment = ''exposure''\<rparr>"
  let ?ha = "[(''FILENAME'', PStr ''a.fits'', ''name''), (''EXPTIME'', PFloat (Fin (- 1)), ''exposure'')]"
  let ?rb = "\<lparr>Keyword = ''NCYCLES'', Type = ''integer'', Allowed_values = Some ''1,10'',
       Comment = ''cycles''\<rparr>"
  let ?hb = "[(''FILENAME'', PStr ''b.fits'', ''name''), (''NCYCLES'', PInt 10, ''cycles'')]"
  have 0: "test_kws_in_interval example_lib [] [h] = ([], None)" for h
    by (simp add: test_kws_in_interval_def)
  have a: "test_kws_in_interval example_lib (?ra # []) [?ha] =
       ((if fl_le (Fin 0) (Fin (- 1)) \<and> fl_le (Fin (- 1)) PInf then []
         else [Kw_in_interval ''test_kws_in_interval'' (PStr ''a.fits'') (Keyword ?ra) (Fin 0) PInf
                 (PFloat (Fin (- 1)))])
        @ fst (test_kws_in_interval example_lib [] [?ha]),
        snd (test_kws_in_interval example_lib [] [?ha]))"
    by (rule conjunct2 [OF kws_in_interval_violation_iff
          [where s = "''0,inf''" and smin = "''0''" and smax = "''inf''"]])
       (simp_all add: kws_specific_values_def hdr_get_def example_lib_def literals_def)
  have b: "test_kws_in_interval example_lib (?rb # []) [?hb] =
       ((if fl_le (Fin 1) (Fin 10) \<and> fl_le (Fin 10) (Fin 10) then []
         else [Kw_in_interval ''test_kws_in_interval'' (PStr ''b.fits'') (Keyword ?rb) (Fin 1)
                 (Fin 10) (PInt 10)])
        @ fst (test_kws_in_interval example_lib [] [?hb]),
        snd (test_kws_in_interval example_lib [] [?hb]))"
    by (rule conjunct2 [OF kws_in_interval_violation_iff
          [where s = "''1,10''" and smin = "''1''" and smax = "''10''"]])
       (simp_all add: kws_specific_values_def hdr_get_def example_lib_def literals_def)
  show ?thesis
    using a b unfolding 0 by simp
qed

subsection \<open>The EM-mode key of the calibration checks\<close>

lemma py_eq_PStr: "py_eq v (PStr s) = (v = PStr s)"
  by (cases v) auto

lemma em_mode_key_cases:
  "em_mode_key v = (if v = PStr ''Conventional'' then PStr ''Conventional'' else PStr ''EM'')"
  by (simp add: em_mode_key_def py_eq_PStr)

lemma em_mode_key_other: "v \<noteq> PStr ''Conventional'' \<Longrightarrow> em_mode_key v = PStr ''EM''"
  by (simp add: em_mode_key_cases)

lemma hdr_get_Cons_same:
  "k \<notin> set commentary_keywords \<Longrightarrow> hdr_get ((k, v, c) # h) k = Inr v"
  by (simp add: hdr_get_def)

lemma hdr_get_EMMODE_Cons: "hdr_get ((''EMMODE'', v, c) # h) ''EMMODE'' = Inr v"
  by (simp add: hdr_get_Cons_same)

lemma hdr_get_Cons_other: "k' \<noteq> k \<Longrightarrow> hdr_get ((k, v, c) # h) k' = hdr_get h k'"
  by (simp add: hdr_get_def)

lemma ccd_gain_hdr_em:
  assumes "v \<noteq> PStr ''Conventional''"
  shows "ccd_gain_hdr lib t ((''EMMODE'', v, c) # hdr) =
         ccd_gain_hdr lib t ((''EMMODE'', PStr ''EM'', c) # hdr)"
proof -
  have k: "em_mode_key v = em_mode_key (PStr ''EM'')"
    using assms by (simp add: em_mode_key_cases)
  show ?thesis
    unfolding ccd_gain_hdr_def hdr_get_EMMODE_Cons raising_Inr k
    by (simp add: hdr_get_Cons_other)
qed

lemma read_noise_hdr_em:
  assumes "v \<noteq> PStr ''Conventional''"
  shows "read_noise_hdr lib t ((''EMMODE'', v, c) # hdr) =
         read_noise_hdr lib t ((''EMMODE'', PStr ''EM'', c) # hdr)"
proof -
  have k: "em_mode_key v = em_mode_key (PStr ''EM'')"
    using assms by (simp add: em_mode_key_cases)
  show ?thesis
    unfolding read_noise_hdr_def hdr_get_EMMODE_Cons raising_Inr k
    by (simp add: hdr_get_Cons_other)
qed

lemma select_rows_key:
  assumes "has_column t ''EM Mode''" and "has_column t ''Readout Rate''"
    and "has_column t ''Preamp''"
  shows "select_rows t (em_mode_key v) readout preamp =
     Inr (filter (\<lambda>r. cell r ''EM Mode'' =
                        (if v = PStr ''Conventional'' then PStr ''Conventional'' else PStr ''EM'')
                      \<and> py_eq (cell r ''Readout Rate'') readout
                      \<and> py_eq (cell r ''Preamp'') preamp) (table_rows t))"
  using assms by (simp add: select_rows_def em_mode_key_cases py_eq_PStr)

text \<open>
  Claim C9. The EM-mode key derived from an \<open>EMMODE\<close> value is \<open>Conventional\<close> when the value
  is the string \<open>Conventional\<close> and \<open>EM\<close> for every other value, so it is always one of the
  two. On a table that has the three key columns the row filter keeps exactly the rows whose
  \<open>EM Mode\<close> cell is that key and whose rate and preamp match. A header whose \<open>EMMODE\<close> is
  any value other than \<open>Conventional\<close>, invalid ones included, therefore selects the rows of
  mode \<open>EM\<close>, and gets the same outcome from the gain check and from the read-noise check
  as the same header with \<open>EMMODE\<close> equal to \<open>EM\<close>.
\<close>

theorem em_mode_key_normalised:
  "em_mode_key v = (if v = PStr ''Conventional'' then PStr ''Conventional'' else PStr ''EM'') \<and>
   em_mode_key v \<in> {PStr ''Conventional'', PStr ''EM''} \<and>
   (has_column t ''EM Mode'' \<and> has_column t ''Readout Rate'' \<and> has_column t ''Preamp'' \<longrightarrow>
      select_rows t (em_mode_key v) readout preamp =
        Inr (filter (\<lambda>r. cell r ''EM Mode'' =
                           (if v = PStr ''Conventional'' then PStr ''Conventional''
                            else PStr ''EM'')
                         \<and> py_eq (cell r ''Readout Rate'') readout
                         \<and> py_eq (cell r ''Preamp'') preamp) (table_rows t))) \<and>
   (v \<noteq> PStr ''Conventional'' \<longrightarrow>
      em_mode_key v = PStr ''EM'' \<and>
      select_rows t (em_mode_key v) readout preamp = select_rows t (PStr ''EM'') readout preamp \<and>
      test_ccd_gain lib t (((''EMMODE'', v, c) # hdr) # hdrs) =
        test_ccd_gain lib t (((''EMMODE'', PStr ''EM'', c) # hdr) # hdrs) \<and>
      test_read_noise lib t (((''EMMODE'', v, c) # hdr) # hdrs) =
        test_read_noise lib t (((''EMMODE'', PStr ''EM'', c) # hdr) # hdrs))"
proof -
  have 0: "em_mode_key v =
      (if v = PStr ''Conventional'' then PStr ''Conventional'' else PStr ''EM'')"
    by (rule em_mode_key_cases)
  have 1: "em_mode_key v \<in> {PStr ''Conventional'', PStr ''EM''}"
    by (simp add: em_mode_key_cases)
  have 2: "test_ccd_gain lib t (((''EMMODE'', v, c) # hdr) # hdrs) =
        test_ccd_gain lib t (((''EMMODE'', PStr ''EM'', c) # hdr) # hdrs)"
    if "v \<noteq> PStr ''Conventional''"
    unfolding test_ccd_gain_def for_each.simps ccd_gain_hdr_em [OF that] ..
  have 3: "test_read_noise lib t (((''EMMODE'', v, c) # hdr) # hdrs) =
        test_read_noise lib t (((''EMMODE'', PStr ''EM'', c) # hdr) # hdrs)"
    if "v \<noteq> PStr ''Conventional''"
    unfolding test_read_noise_def for_each.simps read_noise_hdr_em [OF that] ..
  have 4: "has_column t ''EM Mode'' \<and> has_column t ''Readout Rate'' \<and> has_column t ''Preamp'' \<longrightarrow>
      select_rows t (em_mode_key v) readout preamp =
        Inr (filter (\<lambda>r. cell r ''EM Mode'' =
                           (if v = PStr ''Conventional'' then PStr ''Conventional''
                            else PStr ''EM'')
                         \<and> py_eq (cell r ''Readout Rate'') readout
                         \<and> py_eq (cell r ''Preamp'') preamp) (table_rows t))"
    using select_rows_key [of t v readout preamp] by blast
  have 5: "v \<noteq> PStr ''Conventional'' \<longrightarrow>
      em_mode_key v = PStr ''EM'' \<and>
      select_rows t (em_mode_key v) readout preamp = select_rows t (PStr ''EM'') readout preamp \<and>
      test_ccd_gain lib t (((''EMMODE'', v, c) # hdr) # hdrs) =
        test_ccd_gain lib t (((''EMMODE'', PStr ''EM'', c) # hdr) # hdrs) \<and>
      test_read_noise lib t (((''EMMODE'', v, c) # hdr) # hdrs) =
        test_read_noise lib t (((''EMMODE'', PStr ''EM'', c) # hdr) # hdrs)"
    using 2 3 by (simp add: em_mode_key_other)
  show ?thesis
    by (intro conjI 0 1 4 5)
qed

text \<open>
  The mode \<open>Conventional\<close> keeps its key. A misspelt mode gets the key \<open>EM\<close>: of a table
  with a row for each mode it selects the row of mode \<open>EM\<close>, and a gain that differs from
  that row is logged against it.
\<close>

theorem em_mode_key_normalised_witness:
  "em_mode_key (PStr ''Conventional'') = PStr ''Conventional'' \<and>
   em_mode_key (PStr ''Convencional'') = PStr ''EM'' \<and>
   select_rows
     \<lparr>columns = [''EM Mode'', ''Readout Rate'', ''Preamp'', ''9914''],
      table_rows = [[(''EM Mode'', PStr ''Conventional''), (''Readout Rate'', PInt 1),
                     (''Preamp'', PInt 1), (''9914'', PInt 2)],
                    [(''EM Mode'', PStr ''EM''), (''Readout Rate'', PInt 1), (''Preamp'', PInt 1),
                     (''9914'', PInt 16)]]\<rparr>
     (em_mode_key (PStr ''Convencional'')) (PInt 1) (PFloat (Fin 1)) =
   Inr [[(''EM Mode'', PStr ''EM''), (''Readout Rate'', PInt 1), (''Preamp'', PInt 1),
         (''9914'', PInt 16)]] \<and>
   test_ccd_gain example_lib
     \<lparr>columns = [''EM Mode'', ''Readout Rate'', ''Preamp'', ''9914''],
      table_rows = [[(''EM Mode'', PStr ''Conventional''), (''Readout Rate'', PInt 1),
                     (''Preamp'', PInt 1), (''9914'', PInt 2)],
                    [(''EM Mode'', PStr ''EM''), (''Readout Rate'', PInt 1), (''Preamp'', PInt 1),
                     (''9914'', PInt 16)]]\<rparr>
     [[(''EMMODE'', PStr ''Convencional'', ''mode''), (''READRATE'', PInt 1, ''rate''),
       (''PREAMP'', PStr ''Gain 1'', ''preamp''), (''CCDSERN'', PStr ''9914'', ''serial''),
       (''GAIN'', PInt 8, ''gain''), (''FILENAME'', PStr ''a.fits'', ''name'')]] =
   ([Compare_numbers ''test_ccd_gain'' (PStr ''a.fits'') (PInt 16) (PInt 8)], None)"
proof -
  let ?rc = "[(''EM Mode'', PStr ''Conventional''), (''Readout Rate'', PInt 1),
                     (''Preamp'', PInt 1), (''9914'', PInt 2)]"
  let ?re = "[(''EM Mode'', PStr ''EM''), (''Readout Rate'', PInt 1), (''Preamp'', PInt 1),
                     (''9914'', PInt 16)]"
  let ?t = "\<lparr>columns = [''EM Mode'', ''Readout Rate'', ''Preamp'', ''9914''],
      table_rows = [?rc, ?re]\<rparr>"
  let ?h = "[(''READRATE'', PInt 1, ''rate''),
       (''PREAMP'', PStr ''Gain 1'', ''preamp''), (''CCDSERN'', PStr ''9914'', ''serial''),
       (''GAIN'', PInt 8, ''gain''), (''FILENAME'', PStr ''a.fits'', ''name'')]"
  have 1: "PStr ''Convencional'' \<noteq> PStr ''Conventional''"
    by simp
  have 2: "test_ccd_gain example_lib ?t [(''EMMODE'', PStr ''EM'', ''mode'') # ?h] =
      ([Compare_numbers ''test_ccd_gain'' (PStr ''a.fits'') (PInt 16) (PInt 8)], None)"
    by (simp add: test_ccd_gain_def ccd_gain_hdr_def hdr_get_def em_mode_key_def example_lib_def
        literals_def py_format_def select_rows_def has_column_def cell_def fl_eq_def
        first_value_def compare_numbers_def np_allclose_def atol_def rtol_def)
  have 3: "has_column ?t ''EM Mode'' \<and> has_column ?t ''Readout Rate'' \<and> has_column ?t ''Preamp''"
    by (simp add: has_column_def)
  have 4: "filter (\<lambda>r. cell r ''EM Mode'' =
                (if PStr ''Convencional'' = PStr ''Conventional'' then PStr ''Conventional''
                 else PStr ''EM'')
              \<and> py_eq (cell r ''Readout Rate'') (PInt 1)
              \<and> py_eq (cell r ''Preamp'') (PFloat (Fin 1))) (table_rows ?t) = [?re]"
    by (simp add: cell_def fl_eq_def)
  have c: "em_mode_key (PStr ''Conventional'') = PStr ''Conventional''"
    using em_mode_key_normalised [where v = "PStr ''Conventional''"] by simp
  have m: "em_mode_key (PStr ''Convencional'') = PStr ''EM''"
    using em_mode_key_normalised [where v = "PStr ''Convencional''"] 1 by blast
  have s: "select_rows ?t (em_mode_key (PStr ''Convencional'')) (PInt 1) (PFloat (Fin 1)) =
      Inr [?re]"
    using em_mode_key_normalised [where v = "PStr ''Convencional''" and t = ?t
        and readout = "PInt 1" and preamp = "PFloat (Fin 1)"] 3
    unfolding 4 by blast
  have g: "test_ccd_gain example_lib ?t [(''EMMODE'', PStr ''Convencional'', ''mode'') # ?h] =
      ([Compare_numbers ''test_ccd_gain'' (PStr ''a.fits'') (PInt 16) (PInt 8)], None)"
    using em_mode_key_normalised [where v = "PStr ''Convencional''" and lib = example_lib
        and t = ?t and c = "''mode''" and hdr = ?h and hdrs = "[]"] 1
    unfolding 2 by blast
  show ?thesis
    using c m s g by blast
qed

subsection \<open>The enumeration check\<close>

lemma for_each_raises:
  "x \<in> set xs \<Longrightarrow> snd (body x) \<noteq> None \<Longrightarrow> snd (for_each body xs) \<noteq> None"
  by (induction xs) (auto split: prod.splits option.splits)

lemma for_each_stops:
  "\<forall>x \<in> set xs. body x = ([], None) \<Longrightarrow> body y = (l, Some e) \<Longrightarrow>
   for_each body (xs @ y # ys) = (l, Some e)"
  by (induction xs) auto

lemma seq_simps [simp]:
  "seq (l, None) b = (l @ fst b, snd b)"
  "seq (l, Some e) b = (l, Some e)"
  by (simp_all add: seq_def split: prod.splits)

lemma kws_specific_vals_kw_ok:
  assumes "allowed_vals_of lib header_content kw = Inr allowed_vals"
    and "hdr_get hdr ''FILENAME'' = Inr file_name"
    and "hdr_get hdr kw = Inr v"
  shows "kws_specific_vals_kw lib header_content hdr kw =
     (if py_in v allowed_vals then ([], None)
      else ([Val_in_list ''test_kws_specific_vals'' file_name kw allowed_vals v],
            Some AssertionError))"
  using assms by (simp add: kws_specific_vals_kw_def val_in_list_def)

text \<open>
  Claim C1, amended. For a header and an enumerated keyword whose allowed values parse to
  \<open>allowed_vals\<close>: when the header's value is a member, the enumeration check logs nothing
  and goes on; when it is not a member, the check logs one violation naming the keyword,
  the allowed values and the value, and then fails its assertion. The check on a batch that
  holds such a header therefore never returns normally, and when the keywords before this
  one pass for the first header of the batch, the outcome is that one violation and the
  \<open>AssertionError\<close>, whatever the later keywords and headers are.
\<close>

theorem kws_specific_vals_logs_then_asserts:
  assumes "allowed_vals_of lib header_content kw = Inr allowed_vals"
    and "hdr_get hdr ''FILENAME'' = Inr file_name"
    and "hdr_get hdr kw = Inr v"
  shows "kws_specific_vals_kw lib header_content hdr kw =
     (if py_in v allowed_vals then ([], None)
      else ([Val_in_list ''test_kws_specific_vals'' file_name kw allowed_vals v],
            Some AssertionError)) \<and>
   (\<not> py_in v allowed_vals \<and> kw \<in> set kws_specific_values \<and> hdr \<in> set hdrs \<longrightarrow>
      snd (test_kws_specific_vals lib header_content hdrs) \<noteq> None) \<and>
   (\<not> py_in v allowed_vals \<and> kws_specific_values = before @ kw # after \<and>
    (\<forall>k \<in> set before. kws_specific_vals_kw lib header_content hdr k = ([], None)) \<longrightarrow>
      test_kws_specific_vals lib header_content (hdr # rest) =
        ([Val_in_list ''test_kws_specific_vals'' file_name kw allowed_vals v],
         Some AssertionError))"
proof -
  note step = kws_specific_vals_kw_ok [OF assms]
  have a: "snd (test_kws_specific_vals lib header_content hdrs) \<noteq> None"
    if "\<not> py_in v allowed_vals" "kw \<in> set kws_specific_values" "hdr \<in> set hdrs"
  proof -
    have "snd (kws_specific_vals_kw lib header_content hdr kw) \<noteq> None"
      using that(1) by (simp add: step)
    then have "snd (for_each (kws_specific_vals_kw lib header_content hdr) kws_specific_values)
        \<noteq> None"
      by (rule for_each_raises [OF that(2)])
    then show ?thesis
      unfolding test_kws_specific_vals_def by (rule for_each_raises [OF that(3)])
  qed
  have b: "test_kws_specific_vals lib header_content (hdr # rest) =
        ([Val_in_list ''test_kws_specific_vals'' file_name kw allowed_vals v],
         Some AssertionError)"
    if "\<not> py_in v allowed_vals" "kws_specific_values = before @ kw # after"
      "\<forall>k \<in> set before. kws_specific_vals_kw lib header_content hdr k = ([], None)"
  proof -
    have "for_each (kws_specific_vals_kw lib header_content hdr) (before @ kw # after) =
        ([Val_in_list ''test_kws_specific_vals'' file_name kw allowed_vals v],
         Some AssertionError)"
      using that(1) by (intro for_each_stops [OF that(3)]) (simp add: step)
    then show ?thesis
      unfolding test_kws_specific_vals_def that(2) by simp
  qed
  show ?thesis
    using step a b by blast
qed

text \<open>
  A header whose \<open>FILTER\<close> is not one of the catalog's \<open>V,R\<close>, the three keywords before
  \<open>FILTER\<close> being in order: one violation, then the assertion fails, and the second header
  is not examined.
\<close>

theorem kws_specific_vals_logs_then_asserts_witness:
  "test_kws_specific_vals example_lib
     [\<lparr>Keyword = ''BITPIX'', Type = ''integer'', Allowed_values = Some ''8,16'',
        Comment = ''bits''\<rparr>,
      \<lparr>Keyword = ''INSTMODE'', Type = ''string'', Allowed_values = Some ''PHOT,POLAR'',
        Comment = ''mode''\<rparr>,
      \<lparr>Keyword = ''SYNCMODE'', Type = ''string'', Allowed_values = Some ''SYNC,ASYNC'',
        Comment = ''sync''\<rparr>,
      \<lparr>Keyword = ''FILTER'', Type = ''string'', Allowed_values = Some ''V,R'',
        Comment = ''filter''\<rparr>]
     ([(''FILENAME'', PStr ''a.fits'', ''name''), (''BITPIX'', PInt 16, ''bits''),
       (''INSTMODE'', PStr ''PHOT'', ''mode''), (''SYNCMODE'', PStr ''SYNC'', ''sync''),
       (''FILTER'', PStr ''B'', ''filter'')] #
      [[(''FILENAME'', PStr ''b.fits'', ''name'')]]) =
   ([Val_in_list ''test_kws_specific_vals'' (PStr ''a.fits'') ''FILTER'' [PStr ''V'', PStr ''R'']
       (PStr ''B'')], Some AssertionError)"
proof -
  let ?s = "[\<lparr>Keyword = ''BITPIX'', Type = ''integer'', Allowed_values = Some ''8,16'',
        Comment = ''bits''\<rparr>,
      \<lparr>Keyword = ''INSTMODE'', Type = ''string'', Allowed_values = Some ''PHOT,POLAR'',
        Comment = ''mode''\<rparr>,
      \<lparr>Keyword = ''SYNCMODE'', Type = ''string'', Allowed_values = Some ''SYNC,ASYNC'',
        Comment = ''sync''\<rparr>,
      \<lparr>Keyword = ''FILTER'', Type = ''string'', Allowed_values = Some ''V,R'',
        Comment = ''filter''\<rparr>]"
  let ?h = "[(''FILENAME'', PStr ''a.fits'', ''name''), (''BITPIX'', PInt 16, ''bits''),
       (''INSTMODE'', PStr ''PHOT'', ''mode''), (''SYNCMODE'', PStr ''SYNC'', ''sync''),
       (''FILTER'', PStr ''B'', ''filter'')]"
  have 1: "allowed_vals_of example_lib ?s ''FILTER'' = Inr [PStr ''V'', PStr ''R'']"
    by (simp add: allowed_vals_of_def)
  have 2: "hdr_get ?h ''FILENAME'' = Inr (PStr ''a.fits'')"
    by (simp add: hdr_get_def)
  have 3: "hdr_get ?h ''FILTER'' = Inr (PStr ''B'')"
    by (simp add: hdr_get_def)
  have 4: "\<not> py_in (PStr ''B'') [PStr ''V'', PStr ''R'']"
    by (simp add: py_in_def)
  have 5: "kws_specific_values = [''BITPIX'', ''INSTMODE'', ''SYNCMODE''] @ ''FILTER'' #
      [''OBSTYPE'', ''ACQMODE'', ''PREAMP'', ''READRATE'', ''VSHIFT'', ''TRIGGER'', ''EMMODE'',
       ''SHUTTER'', ''TEMPST'', ''VCLKAMP'', ''CTRLINTE'', ''WPSEL'', ''CALW'']"
    by (simp add: kws_specific_values_def)
  have 6: "\<forall>k \<in> set [''BITPIX'', ''INSTMODE'', ''SYNCMODE''].
      kws_specific_vals_kw example_lib ?s ?h k = ([], None)"
    by (simp add: kws_specific_vals_kw_def allowed_vals_of_def example_lib_def literals_def
        hdr_get_def val_in_list_def py_in_def fl_eq_def)
  show ?thesis
    using kws_specific_vals_logs_then_asserts [OF 1 2 3,
        where before = "[''BITPIX'', ''INSTMODE'', ''SYNCMODE'']"
        and rest = "[[(''FILENAME'', PStr ''b.fits'', ''name'')]]"] 4 5 6
    by blast
qed

text \<open>
  The claim as first stated fails: a \<open>BITPIX\<close> of 10 against the catalog's \<open>8,16\<close> is logged,
  and then the check is left by the failed assertion; it does not continue with the next
  keyword, nor with the second header, whose \<open>BITPIX\<close> of 32 is never reported.
\<close>

theorem kws_specific_vals_aborts_counterexample:
  "test_kws_specific_vals example_lib
     [\<lparr>Keyword = ''BITPIX'', Type = ''integer'', Allowed_values = Some ''8,16'',
        Comment = ''bits''\<rparr>]
     [[(''FILENAME'', PStr ''a.fits'', ''name''), (''BITPIX'', PInt 10, ''bits'')],
      [(''FILENAME'', PStr ''b.fits'', ''name''), (''BITPIX'', PInt 32, ''bits'')]] =
   ([Val_in_list ''test_kws_specific_vals'' (PStr ''a.fits'') ''BITPIX'' [PInt 8, PInt 16]
       (PInt 10)], Some AssertionError)"
  by (simp add: test_kws_specific_vals_def kws_specific_values_def kws_specific_vals_kw_def
      allowed_vals_of_def example_lib_def literals_def hdr_get_def val_in_list_def py_in_def
      fl_eq_def)

subsection \<open>Lookup failures\<close>

lemma for_each_all_ok:
  "\<forall>x \<in> set xs. snd (body x) = None \<Longrightarrow>
   for_each body xs = (concat (map (\<lambda>x. fst (body x)) xs), None)"
  by (induction xs) (auto split: prod.splits option.splits)

lemma try_except_caught:
  "try_except ([], Some e) handler = handler e"
  by (simp add: try_except_def split: prod.splits)

lemma try_except_logging_handler:
  assumes "\<And>e. snd (handler e) = None"
  shows "snd (try_except body handler) = None"
  using assms [of "the (snd body)"]
  by (cases body; cases "snd body") (auto simp add: try_except_def split: prod.splits)

lemma keywords_types_row_returns:
  assumes "hdr_get hdr ''FILENAME'' = Inr filename"
  shows "snd (keywords_types_row hdr row) = None"
  unfolding keywords_types_row_def Let_def
  by (rule try_except_logging_handler) (simp add: assms)

lemma kws_in_interval_row_returns:
  assumes "hdr_get hdr ''FILENAME'' = Inr filename"
  shows "snd (kws_in_interval_row lib hdr row) = None"
  unfolding kws_in_interval_row_def
  by (rule try_except_logging_handler) (simp add: assms)

lemma keywords_types_row_absent:
  assumes "hdr_get hdr ''FILENAME'' = Inr filename" and "hdr_get hdr (Keyword row) = Inl e"
  shows "keywords_types_row hdr row =
     ([Caught ''test_keywords_types'' filename (Some (Keyword row)) e], None)"
  using assms by (simp add: keywords_types_row_def try_except_caught)

lemma kws_in_interval_row_absent:
  assumes "hdr_get hdr ''FILENAME'' = Inr filename" and "hdr_get hdr (Keyword row) = Inl e"
  shows "kws_in_interval_row lib hdr row = ([Caught ''test_kws_in_interval'' filename None e], None)"
  using assms by (simp add: kws_in_interval_row_def try_except_caught)

lemma kws_in_interval_row_malformed:
  assumes "hdr_get hdr ''FILENAME'' = Inr filename" and "hdr_get hdr (Keyword row) = Inr v"
    and "Keyword row \<notin> set kws_specific_values"
    and "parse_interval lib (Allowed_values row) = Inl e"
  shows "kws_in_interval_row lib hdr row = ([Caught ''test_kws_in_interval'' filename None e], None)"
  using assms by (simp add: kws_in_interval_row_def try_except_caught)

lemma kws_in_interval_row_uncomparable:
  assumes "hdr_get hdr ''FILENAME'' = Inr filename" and "hdr_get hdr (Keyword row) = Inr v"
    and "Keyword row \<notin> set kws_specific_values"
    and "parse_interval lib (Allowed_values row) = Inr (lo, hi)"
    and "num_of v = None"
  shows "kws_in_interval_row lib hdr row =
     ([Caught ''test_kws_in_interval'' filename None TypeError], None)"
  using assms
  by (simp add: kws_in_interval_row_def kw_in_interval_def py_le_def try_except_caught)

lemma test_keywords_types_returns:
  assumes "\<forall>h \<in> set hdrs. \<exists>fn. hdr_get h ''FILENAME'' = Inr fn"
  shows "test_keywords_types header_content hdrs =
     (concat (map (\<lambda>h. concat (map (\<lambda>row. fst (keywords_types_row h row)) header_content)) hdrs),
      None)"
proof -
  have "for_each (keywords_types_row h) header_content =
      (concat (map (\<lambda>row. fst (keywords_types_row h row)) header_content), None)"
    if "h \<in> set hdrs" for h
    using that assms by (intro for_each_all_ok) (auto simp: keywords_types_row_returns)
  then show ?thesis
    unfolding test_keywords_types_def
    by (subst for_each_all_ok) (auto intro!: arg_cong [where f = concat])
qed

lemma test_kws_in_interval_returns:
  assumes "\<forall>h \<in> set hdrs. \<exists>fn. hdr_get h ''FILENAME'' = Inr fn"
  shows "test_kws_in_interval lib header_content hdrs =
     (concat (map (\<lambda>h. concat (map (\<lambda>row. fst (kws_in_interval_row lib h row))
                (filter (\<lambda>row. Type row \<in> set [''integer'', ''float'']) header_content))) hdrs),
      None)"
proof -
  have "for_each (kws_in_interval_row lib h) rows =
      (concat (map (\<lambda>row. fst (kws_in_interval_row lib h row)) rows), None)"
    if "h \<in> set hdrs" for h rows
    using that assms by (intro for_each_all_ok) (auto simp: kws_in_interval_row_returns)
  then show ?thesis
    unfolding test_kws_in_interval_def Let_def
    by (subst for_each_all_ok) (auto intro!: arg_cong [where f = concat])
qed

lemma keywords_types_row_unknown_type:
  assumes "hdr_get hdr ''FILENAME'' = Inr filename" and "hdr_get hdr (Keyword row) = Inr v"
    and "var_types (Type row) = Inl e"
  shows "keywords_types_row hdr row =
     ([Caught ''test_keywords_types'' filename (Some (Keyword row)) e], None)"
  using assms by (simp add: keywords_types_row_def try_except_caught)

lemma ccd_gain_hdr_found:
  assumes "hdr_get hdr ''EMMODE'' = Inr em_mode" and "hdr_get hdr ''READRATE'' = Inr readout"
    and "hdr_get hdr ''PREAMP'' = Inr preamp_str" and "py_last preamp_str = Inr last_char"
    and "float_of_str lib last_char = Inr preamp" and "hdr_get hdr ''CCDSERN'' = Inr ccdsern"
    and "hdr_get hdr ''GAIN'' = Inr gain" and "hdr_get hdr ''FILENAME'' = Inr filename"
    and "select_rows t (em_mode_key em_mode) readout (PFloat preamp) = Inr (r # rs)"
    and "has_column t (py_format lib ccdsern)"
  shows "ccd_gain_hdr lib t hdr =
     compare_numbers (cell r (py_format lib ccdsern)) gain filename ''test_ccd_gain''"
  using assms by (simp add: ccd_gain_hdr_def first_value_def)

lemma read_noise_hdr_found:
  assumes "hdr_get hdr ''EMMODE'' = Inr em_mode" and "hdr_get hdr ''READRATE'' = Inr readout"
    and "hdr_get hdr ''PREAMP'' = Inr preamp_str" and "py_last preamp_str = Inr last_char"
    and "float_of_str lib last_char = Inr preamp" and "hdr_get hdr ''CCDSERN'' = Inr ccdsern"
    and "hdr_get hdr ''RDNOISE'' = Inr read_noise" and "hdr_get hdr ''FILENAME'' = Inr filename"
    and "select_rows t (em_mode_key em_mode) readout (PFloat preamp) = Inr (r # rs)"
    and "has_column t (py_format lib ccdsern)"
  shows "read_noise_hdr lib t hdr =
     compare_numbers (cell r (py_format lib ccdsern)) read_noise filename ''test_read_noise''"
  using assms by (simp add: read_noise_hdr_def first_value_def)

text \<open>
  Claim C3, amended. In the type check and in the interval check every lookup or access
  failure is caught at the row: for a batch whose headers carry the \<open>FILENAME\<close> label that the
  handler reads, both checks return normally, and their log is the log of every header and
  row in order. A keyword absent from the header, a type name unknown to the type check,
  an allowed-values cell the interval check cannot read, and a value the interval check
  cannot compare with the bounds each give one logged violation that carries the
  exception. In the two calibration checks a lookup that matches more
  than one row is no failure: the value of the first matching row is compared.
\<close>

theorem lookup_failures_caught_by_type_and_interval_checks:
  assumes "\<forall>h \<in> set hdrs. \<exists>fn. hdr_get h ''FILENAME'' = Inr fn"
  shows "test_keywords_types header_content hdrs =
       (concat (map (\<lambda>h. concat (map (\<lambda>row. fst (keywords_types_row h row)) header_content))
          hdrs), None) \<and>
     test_kws_in_interval lib header_content hdrs =
       (concat (map (\<lambda>h. concat (map (\<lambda>row. fst (kws_in_interval_row lib h row))
          (filter (\<lambda>row. Type row \<in> set [''integer'', ''float'']) header_content))) hdrs),
        None) \<and>
     (hdr_get hdr ''FILENAME'' = Inr filename \<and> hdr_get hdr (Keyword row) = Inl e \<longrightarrow>
        keywords_types_row hdr row =
          ([Caught ''test_keywords_types'' filename (Some (Keyword row)) e], None) \<and>
        kws_in_interval_row lib hdr row =
          ([Caught ''test_kws_in_interval'' filename None e], None)) \<and>
     (hdr_get hdr ''FILENAME'' = Inr filename \<and> hdr_get hdr (Keyword row) = Inr v \<and>
      var_types (Type row) = Inl e \<longrightarrow>
        keywords_types_row hdr row =
          ([Caught ''test_keywords_types'' filename (Some (Keyword row)) e], None)) \<and>
     (hdr_get hdr ''FILENAME'' = Inr filename \<and> hdr_get hdr (Keyword row) = Inr v \<and>
      Keyword row \<notin> set kws_specific_values \<and>
      parse_interval lib (Allowed_values row) = Inl e \<longrightarrow>
        kws_in_interval_row lib hdr row =
          ([Caught ''test_kws_in_interval'' filename None e], None)) \<and>
     (hdr_get hdr ''FILENAME'' = Inr filename \<and> hdr_get hdr (Keyword row) = Inr v \<and>
      Keyword row \<notin> set kws_specific_values \<and>
      parse_interval lib (Allowed_values row) = Inr (lo, hi) \<and> num_of v = None \<longrightarrow>
        kws_in_interval_row lib hdr row =
          ([Caught ''test_kws_in_interval'' filename None TypeError], None)) \<and>
     (hdr_get hdr ''EMMODE'' = Inr em_mode \<and> hdr_get hdr ''READRATE'' = Inr readout \<and>
      hdr_get hdr ''PREAMP'' = Inr preamp_str \<and> py_last preamp_str = Inr last_char \<and>
      float_of_str lib last_char = Inr preamp \<and> hdr_get hdr ''CCDSERN'' = Inr ccdsern \<and>
      hdr_get hdr ''FILENAME'' = Inr filename \<and>
      select_rows t (em_mode_key em_mode) readout (PFloat preamp) = Inr (r # rs) \<and>
      has_column t (py_format lib ccdsern) \<longrightarrow>
        (hdr_get hdr ''GAIN'' = Inr gain \<longrightarrow>
           ccd_gain_hdr lib t hdr =
             compare_numbers (cell r (py_format lib ccdsern)) gain filename ''test_ccd_gain'') \<and>
        (hdr_get hdr ''RDNOISE'' = Inr read_noise \<longrightarrow>
           read_noise_hdr lib t hdr =
             compare_numbers (cell r (py_format lib ccdsern)) read_noise filename
               ''test_read_noise''))"
proof (intro conjI impI; (elim conjE)?)
  show "test_keywords_types header_content hdrs =
       (concat (map (\<lambda>h. concat (map (\<lambda>row. fst (keywords_types_row h row)) header_content))
          hdrs), None)"
    by (rule test_keywords_types_returns [OF assms])
  show "test_kws_in_interval lib header_content hdrs =
       (concat (map (\<lambda>h. concat (map (\<lambda>row. fst (kws_in_interval_row lib h row))
          (filter (\<lambda>row. Type row \<in> set [''integer'', ''float'']) header_content))) hdrs),
        None)"
    by (rule test_kws_in_interval_returns [OF assms])
qed (simp_all add: keywords_types_row_absent kws_in_interval_row_absent
    keywords_types_row_unknown_type kws_in_interval_row_malformed
    kws_in_interval_row_uncomparable ccd_gain_hdr_found read_noise_hdr_found)

text \<open>
  A header without \<open>FILTER\<close>, and a catalog whose \<open>EXPTIME\<close> cell has one field only: the
  type check logs the \<open>KeyError\<close>, the interval check the failed unpacking, and both
  return. With two table rows for the same mode, rate and preamp, the gain is compared
  with the first.
\<close>

theorem lookup_failures_caught_by_type_and_interval_checks_witness:
  "test_keywords_types
     [\<lparr>Keyword = ''FILTER'', Type = ''string'', Allowed_values = Some ''V,R'',
        Comment = ''filter''\<rparr>,
      \<lparr>Keyword = ''EXPTIME'', Type = ''float'', Allowed_values = Some ''0'',
        Comment = ''exposure''\<rparr>]
     [[(''FILENAME'', PStr ''a.fits'', ''name''), (''EXPTIME'', PFloat (Fin 2), ''exposure'')]] =
   ([Caught ''test_keywords_types'' (PStr ''a.fits'') (Some ''FILTER'') (KeyError ''FILTER'')],
    None) \<and>
   test_kws_in_interval example_lib
     [\<lparr>Keyword = ''FILTER'', Type = ''string'', Allowed_values = Some ''V,R'',
        Comment = ''filter''\<rparr>,
      \<lparr>Keyword = ''EXPTIME'', Type = ''float'', Allowed_values = Some ''0'',
        Comment = ''exposure''\<rparr>]
     [[(''FILENAME'', PStr ''a.fits'', ''name''), (''EXPTIME'', PFloat (Fin 2), ''exposure'')]] =
   ([Caught ''test_kws_in_interval'' (PStr ''a.fits'') None (ValueError [])], None) \<and>
   ccd_gain_hdr example_lib
     \<lparr>columns = [''EM Mode'', ''Readout Rate'', ''Preamp'', ''9914''],
      table_rows = [[(''EM Mode'', PStr ''EM''), (''Readout Rate'', PInt 1), (''Preamp'', PInt 1),
                     (''9914'', PInt 16)],
                    [(''EM Mode'', PStr ''EM''), (''Readout Rate'', PInt 1), (''Preamp'', PInt 1),
                     (''9914'', PInt 8)]]\<rparr>
     [(''EMMODE'', PStr ''EM'', ''mode''), (''READRATE'', PInt 1, ''rate''),
      (''PREAMP'', PStr ''Gain 1'', ''preamp''), (''CCDSERN'', PStr ''9914'', ''serial''),
      (''GAIN'', PInt 8, ''gain''), (''FILENAME'', PStr ''a.fits'', ''name'')] =
   ([Compare_numbers ''test_ccd_gain'' (PStr ''a.fits'') (PInt 16) (PInt 8)], None)"
proof -
  let ?s = "[\<lparr>Keyword = ''FILTER'', Type = ''string'', Allowed_values = Some ''V,R'',
        Comment = ''filter''\<rparr>,
      \<lparr>Keyword = ''EXPTIME'', Type = ''float'', Allowed_values = Some ''0'',
        Comment = ''exposure''\<rparr>]"
  let ?h = "[(''FILENAME'', PStr ''a.fits'', ''name''), (''EXPTIME'', PFloat (Fin 2), ''exposure'')]"
  let ?r1 = "[(''EM Mode'', PStr ''EM''), (''Readout Rate'', PInt 1), (''Preamp'', PInt 1),
                     (''9914'', PInt 16)]"
  let ?r2 = "[(''EM Mode'', PStr ''EM''), (''Readout Rate'', PInt 1), (''Preamp'', PInt 1),
                     (''9914'', PInt 8)]"
  let ?t = "\<lparr>columns = [''EM Mode'', ''Readout Rate'', ''Preamp'', ''9914''],
      table_rows = [?r1, ?r2]\<rparr>"
  let ?g = "[(''EMMODE'', PStr ''EM'', ''mode''), (''READRATE'', PInt 1, ''rate''),
      (''PREAMP'', PStr ''Gain 1'', ''preamp''), (''CCDSERN'', PStr ''9914'', ''serial''),
      (''GAIN'', PInt 8, ''gain''), (''FILENAME'', PStr ''a.fits'', ''name'')]"
  have 1: "\<forall>h \<in> set [?h]. \<exists>fn. hdr_get h ''FILENAME'' = Inr fn"
    by (simp add: hdr_get_def)
  have 2: "keywords_types_row ?h (?s ! 0) =
      ([Caught ''test_keywords_types'' (PStr ''a.fits'') (Some ''FILTER'') (KeyError ''FILTER'')],
       None)"
    by (simp add: keywords_types_row_def hdr_get_def try_except_def Let_def)
  have 3: "keywords_types_row ?h (?s ! 1) = ([], None)"
    by (simp add: keywords_types_row_def hdr_get_def try_except_def var_types_def
        verify_type_def Let_def)
  have 4: "kws_in_interval_row example_lib ?h (?s ! 1) =
      ([Caught ''test_kws_in_interval'' (PStr ''a.fits'') None (ValueError [])], None)"
    by (simp add: kws_in_interval_row_def hdr_get_def try_except_def kws_specific_values_def
        parse_interval_def)
  have 5: "hdr_get ?g ''EMMODE'' = Inr (PStr ''EM'') \<and> hdr_get ?g ''READRATE'' = Inr (PInt 1) \<and>
      hdr_get ?g ''PREAMP'' = Inr (PStr ''Gain 1'') \<and> py_last (PStr ''Gain 1'') = Inr ''1'' \<and>
      float_of_str example_lib ''1'' = Inr (Fin 1) \<and> hdr_get ?g ''CCDSERN'' = Inr (PStr ''9914'') \<and>
      hdr_get ?g ''FILENAME'' = Inr (PStr ''a.fits'') \<and>
      select_rows ?t (em_mode_key (PStr ''EM'')) (PInt 1) (PFloat (Fin 1)) = Inr (?r1 # [?r2]) \<and>
      has_column ?t (py_format example_lib (PStr ''9914''))"
    by (simp add: hdr_get_def example_lib_def literals_def select_rows_def has_column_def
        em_mode_key_def cell_def fl_eq_def py_format_def)
  have 6: "hdr_get ?g ''GAIN'' = Inr (PInt 8)"
    by (simp add: hdr_get_def)
  have 7: "compare_numbers (cell ?r1 (py_format example_lib (PStr ''9914''))) (PInt 8)
      (PStr ''a.fits'') ''test_ccd_gain'' =
      ([Compare_numbers ''test_ccd_gain'' (PStr ''a.fits'') (PInt 16) (PInt 8)], None)"
    by (simp add: compare_numbers_def np_allclose_def cell_def py_format_def atol_def rtol_def)
  show ?thesis
    using lookup_failures_caught_by_type_and_interval_checks [OF 1, where header_content = ?s
        and lib = example_lib and hdr = ?g and t = ?t and r = ?r1 and rs = "[?r2]"
        and em_mode = "PStr ''EM''" and readout = "PInt 1" and preamp_str = "PStr ''Gain 1''"
        and last_char = "''1''" and preamp = "Fin 1" and ccdsern = "PStr ''9914''"
        and filename = "PStr ''a.fits''" and gain = "PInt 8"] 2 3 4 5 6 7
    by simp
qed

text \<open>
  The claim as first stated fails twice. The enumeration check has no handler: a header
  with \<open>BITPIX\<close>, \<open>INSTMODE\<close> and \<open>SYNCMODE\<close> in order and no \<open>FILTER\<close> ends it with an
  unhandled \<open>KeyError\<close>. And a calibration lookup that matches two rows raises nothing and
  logs nothing when the gain agrees with the first of them.
\<close>

theorem unhandled_lookup_counterexample:
  "test_kws_specific_vals example_lib
     [\<lparr>Keyword = ''BITPIX'', Type = ''integer'', Allowed_values = Some ''8,16'',
        Comment = ''bits''\<rparr>,
      \<lparr>Keyword = ''INSTMODE'', Type = ''string'', Allowed_values = Some ''PHOT,POLAR'',
        Comment = ''mode''\<rparr>,
      \<lparr>Keyword = ''SYNCMODE'', Type = ''string'', Allowed_values = Some ''SYNC,ASYNC'',
        Comment = ''sync''\<rparr>,
      \<lparr>Keyword = ''FILTER'', Type = ''string'', Allowed_values = Some ''V,R'',
        Comment = ''filter''\<rparr>]
     [[(''FILENAME'', PStr ''a.fits'', ''name''), (''BITPIX'', PInt 16, ''bits''),
       (''INSTMODE'', PStr ''PHOT'', ''mode''), (''SYNCMODE'', PStr ''SYNC'', ''sync'')]] =
   ([], Some (KeyError ''FILTER'')) \<and>
   test_ccd_gain example_lib
     \<lparr>columns = [''EM Mode'', ''Readout Rate'', ''Preamp'', ''9914''],
      table_rows = [[(''EM Mode'', PStr ''EM''), (''Readout Rate'', PInt 1), (''Preamp'', PInt 1),
                     (''9914'', PInt 16)],
                    [(''EM Mode'', PStr ''EM''), (''Readout Rate'', PInt 1), (''Preamp'', PInt 1),
                     (''9914'', PInt 8)]]\<rparr>
     [[(''EMMODE'', PStr ''EM'', ''mode''), (''READRATE'', PInt 1, ''rate''),
       (''PREAMP'', PStr ''Gain 1'', ''preamp''), (''CCDSERN'', PStr ''9914'', ''serial''),
       (''GAIN'', PInt 16, ''gain''), (''FILENAME'', PStr ''a.fits'', ''name'')]] =
   ([], None)"
proof -
  have "test_kws_specific_vals example_lib
     [\<lparr>Keyword = ''BITPIX'', Type = ''integer'', Allowed_values = Some ''8,16'',
        Comment = ''bits''\<rparr>,
      \<lparr>Keyword = ''INSTMODE'', Type = ''string'', Allowed_values = Some ''PHOT,POLAR'',
        Comment = ''mode''\<rparr>,
      \<lparr>Keyword = ''SYNCMODE'', Type = ''string'', Allowed_values = Some ''SYNC,ASYNC'',
        Comment = ''sync''\<rparr>,
      \<lparr>Keyword = ''FILTER'', Type = ''string'', Allowed_values = Some ''V,R'',
        Comment = ''filter''\<rparr>]
     [[(''FILENAME'', PStr ''a.fits'', ''name''), (''BITPIX'', PInt 16, ''bits''),
       (''INSTMODE'', PStr ''PHOT'', ''mode''), (''SYNCMODE'', PStr ''SYNC'', ''sync'')]] =
   ([], Some (KeyError ''FILTER''))"
    by (simp add: test_kws_specific_vals_def kws_specific_values_def kws_specific_vals_kw_def
        allowed_vals_of_def example_lib_def literals_def hdr_get_def val_in_list_def py_in_def
        fl_eq_def)
  moreover have "test_ccd_gain example_lib
     \<lparr>columns = [''EM Mode'', ''Readout Rate'', ''Preamp'', ''9914''],
      table_rows = [[(''EM Mode'', PStr ''EM''), (''Readout Rate'', PInt 1), (''Preamp'', PInt 1),
                     (''9914'', PInt 16)],
                    [(''EM Mode'', PStr ''EM''), (''Readout Rate'', PInt 1), (''Preamp'', PInt 1),
                     (''9914'', PInt 8)]]\<rparr>
     [[(''EMMODE'', PStr ''EM'', ''mode''), (''READRATE'', PInt 1, ''rate''),
       (''PREAMP'', PStr ''Gain 1'', ''preamp''), (''CCDSERN'', PStr ''9914'', ''serial''),
       (''GAIN'', PInt 16, ''gain''), (''FILENAME'', PStr ''a.fits'', ''name'')]] =
   ([], None)"
    by (simp add: test_ccd_gain_def ccd_gain_hdr_def hdr_get_def em_mode_key_def example_lib_def
        literals_def py_format_def select_rows_def has_column_def cell_def fl_eq_def
        first_value_def compare_numbers_def np_allclose_def atol_def rtol_def)
  ultimately show ?thesis
    by (rule conjI)
qed

subsection \<open>Approximate and exact comparisons\<close>

lemma compare_numbers_num:
  assumes "num_of expected = Some a" and "num_of received = Some b"
  shows "compare_numbers expected received filename func_name =
     (if isclose a b then [] else [Compare_numbers func_name filename expected received], None)"
  using assms by (simp add: compare_numbers_def np_allclose_def)

lemma py_eq_num:
  assumes "num_of a = Some x" and "num_of v = Some y"
  shows "py_eq a v = (x \<noteq> NaN \<and> x = y)"
  using assms by (cases a; cases v) (simp_all add: fl_eq_def)

lemma val_in_list_exact:
  "val_in_list v l kw filename func_name =
     (if \<exists>a \<in> set l. py_eq a v then [] else [Val_in_list func_name filename kw l v], None)"
  by (simp add: val_in_list_def py_in_def list_ex_iff)

lemma constant_checks_num:
  assumes "hdr_get hdr ''FILENAME'' = Inr filename" and "hdr_get hdr kw = Inr v"
    and "num_of v = Some x"
  shows "kw = ''EQUINOX'' \<Longrightarrow> test_equinox [hdr] =
       (if isclose (Fin 2000) x then []
        else [Compare_numbers ''test_equinox'' filename (PFloat (Fin 2000)) v], None)"
    and "kw = ''BSCALE'' \<Longrightarrow> test_BSCALE [hdr] =
       (if isclose (Fin 1) x then []
        else [Compare_numbers ''test_BSCALE'' filename (PInt 1) v], None)"
    and "kw = ''BZERO'' \<Longrightarrow> test_BZERO [hdr] =
       (if isclose (Fin 32768) x then []
        else [Compare_numbers ''test_BZERO'' filename (PInt 32768) v], None)"
    and "kw = ''BITPIX'' \<Longrightarrow> test_BITPIX [hdr] =
       (if isclose (Fin 16) x then []
        else [Compare_numbers ''test_BITPIX'' filename (PInt 16) v], None)"
    and "kw = ''NAXIS'' \<Longrightarrow> test_NAXIS [hdr] =
       (if isclose (Fin 2) x then []
        else [Compare_numbers ''test_NAXIS'' filename (PInt 2) v], None)"
  using assms
  by (simp_all add: test_equinox_def equinox_hdr_def test_BSCALE_def BSCALE_hdr_def
      test_BZERO_def BZERO_hdr_def test_BITPIX_def BITPIX_hdr_def test_NAXIS_def NAXIS_hdr_def
      for_each_single compare_numbers_num del: for_each.simps)

lemma observatory_coords_num:
  assumes "hdr_get hdr ''FILENAME'' = Inr filename"
    and "hdr_get hdr ''OBSLONG'' = Inr v1" and "num_of v1 = Some x1"
    and "hdr_get hdr ''OBSLAT'' = Inr v2" and "num_of v2 = Some x2"
    and "hdr_get hdr ''OBSALT'' = Inr v3" and "num_of v3 = Some x3"
  shows "test_observatory_coords [hdr] =
     ((if isclose (Fin (- (455825 / 10000))) x1 then []
       else [Compare_numbers ''test_observatory_coords'' filename
               (PFloat (Fin (- (455825 / 10000)))) v1]) @
      (if isclose (Fin (- (22534 / 1000))) x2 then []
       else [Compare_numbers ''test_observatory_coords'' filename
               (PFloat (Fin (- (22534 / 1000)))) v2]) @
      (if isclose (Fin 1864) x3 then []
       else [Compare_numbers ''test_observatory_coords'' filename (PFloat (Fin 1864)) v3]),
      None)"
  using assms
  by (simp add: test_observatory_coords_def observatory_coords_hdr_def for_each_single
      compare_numbers_num del: for_each.simps)

text \<open>
  Claim C8, amended. The comparisons made through \<open>compare_numbers\<close> are approximate: for
  a header that stores numbers (and carries its \<open>FILENAME\<close> label), each of the checks of the
  fixed constants (equinox, scale, zero point, bit depth, axis count, the three observatory
  coordinates) and each calibration check (gain, read noise, against the cell of the first
  matching row) logs a mismatch exactly when the expected and the received number are not
  close in the sense of \<open>numpy.allclose\<close>. The membership test of the enumeration check is
  exact: \<open>val_in_list\<close> logs exactly when no allowed value equals the header's value, and two
  numbers are equal only when they are the same number.
\<close>

theorem compare_numbers_approximate_membership_exact:
  "(hdr_get hdr ''FILENAME'' = Inr filename \<and> hdr_get hdr kw = Inr v \<and> num_of v = Some x \<longrightarrow>
      (kw = ''EQUINOX'' \<longrightarrow> test_equinox [hdr] =
         (if isclose (Fin 2000) x then []
          else [Compare_numbers ''test_equinox'' filename (PFloat (Fin 2000)) v], None)) \<and>
      (kw = ''BSCALE'' \<longrightarrow> test_BSCALE [hdr] =
         (if isclose (Fin 1) x then []
          else [Compare_numbers ''test_BSCALE'' filename (PInt 1) v], None)) \<and>
      (kw = ''BZERO'' \<longrightarrow> test_BZERO [hdr] =
         (if isclose (Fin 32768) x then []
          else [Compare_numbers ''test_BZERO'' filename (PInt 32768) v], None)) \<and>
      (kw = ''BITPIX'' \<longrightarrow> test_BITPIX [hdr] =
         (if isclose (Fin 16) x then []
          else [Compare_numbers ''test_BITPIX'' filename (PInt 16) v], None)) \<and>
      (kw = ''NAXIS'' \<longrightarrow> test_NAXIS [hdr] =
         (if isclose (Fin 2) x then []
          else [Compare_numbers ''test_NAXIS'' filename (PInt 2) v], None))) \<and>
   (hdr_get hdr ''FILENAME'' = Inr filename \<and>
    hdr_get hdr ''OBSLONG'' = Inr v1 \<and> num_of v1 = Some x1 \<and>
    hdr_get hdr ''OBSLAT'' = Inr v2 \<and> num_of v2 = Some x2 \<and>
    hdr_get hdr ''OBSALT'' = Inr v3 \<and> num_of v3 = Some x3 \<longrightarrow>
      test_observatory_coords [hdr] =
        ((if isclose (Fin (- (455825 / 10000))) x1 then []
          else [Compare_numbers ''test_observatory_coords'' filename
                  (PFloat (Fin (- (455825 / 10000)))) v1]) @
         (if isclose (Fin (- (22534 / 1000))) x2 then []
          else [Compare_numbers ''test_observatory_coords'' filename
                  (PFloat (Fin (- (22534 / 1000)))) v2]) @
         (if isclose (Fin 1864) x3 then []
          else [Compare_numbers ''test_observatory_coords'' filename (PFloat (Fin 1864)) v3]),
         None)) \<and>
   (hdr_get hdr ''EMMODE'' = Inr em_mode \<and> hdr_get hdr ''READRATE'' = Inr readout \<and>
    hdr_get hdr ''PREAMP'' = Inr preamp_str \<and> py_last preamp_str = Inr last_char \<and>
    float_of_str lib last_char = Inr preamp \<and> hdr_get hdr ''CCDSERN'' = Inr ccdsern \<and>
    hdr_get hdr ''FILENAME'' = Inr filename \<and>
    select_rows t (em_mode_key em_mode) readout (PFloat preamp) = Inr (r # rs) \<and>
    has_column t (py_format lib ccdsern) \<and>
    num_of (cell r (py_format lib ccdsern)) = Some a \<longrightarrow>
      (hdr_get hdr ''GAIN'' = Inr gain \<and> num_of gain = Some b \<longrightarrow>
         test_ccd_gain lib t [hdr] =
           (if isclose a b then []
            else [Compare_numbers ''test_ccd_gain'' filename (cell r (py_format lib ccdsern))
                    gain], None)) \<and>
      (hdr_get hdr ''RDNOISE'' = Inr read_noise \<and> num_of read_noise = Some b \<longrightarrow>
         test_read_noise lib t [hdr] =
           (if isclose a b then []
            else [Compare_numbers ''test_read_noise'' filename
                    (cell r (py_format lib ccdsern)) read_noise], None))) \<and>
   val_in_list w l kw' filename' func_name =
     (if \<exists>c \<in> set l. py_eq c w then [] else [Val_in_list func_name filename' kw' l w], None) \<and>
   (num_of c = Some p \<and> num_of w = Some q \<longrightarrow> py_eq c w = (p \<noteq> NaN \<and> p = q))"
proof (intro conjI impI; (elim conjE)?)
  show "val_in_list w l kw' filename' func_name =
     (if \<exists>c \<in> set l. py_eq c w then [] else [Val_in_list func_name filename' kw' l w], None)"
    by (rule val_in_list_exact)
qed (simp_all add: constant_checks_num observatory_coords_num py_eq_num
    test_ccd_gain_def test_read_noise_def for_each_single ccd_gain_hdr_found
    read_noise_hdr_found compare_numbers_num del: for_each.simps)

text \<open>
  An equinox of 2000.001 is close to 2000 and passes; a bit depth of 32 is not close to 16
  and is logged; the float 8.5 is no member of the integers 8 and 16.
\<close>

theorem compare_numbers_approximate_membership_exact_witness:
  "test_equinox
     [[(''FILENAME'', PStr ''a.fits'', ''name''),
       (''EQUINOX'', PFloat (Fin (2000 + 1 / 1000)), ''equinox'')]] = ([], None) \<and>
   test_BITPIX [[(''FILENAME'', PStr ''a.fits'', ''name''), (''BITPIX'', PInt 32, ''bits'')]] =
     ([Compare_numbers ''test_BITPIX'' (PStr ''a.fits'') (PInt 16) (PInt 32)], None) \<and>
   val_in_list (PFloat (Fin (17 / 2))) [PInt 8, PInt 16] ''BITPIX'' (PStr ''a.fits'')
       ''test_kws_specific_vals'' =
     ([Val_in_list ''test_kws_specific_vals'' (PStr ''a.fits'') ''BITPIX'' [PInt 8, PInt 16]
         (PFloat (Fin (17 / 2)))], None)"
proof -
  let ?e = "[(''FILENAME'', PStr ''a.fits'', ''name''),
       (''EQUINOX'', PFloat (Fin (2000 + 1 / 1000)), ''equinox'')]"
  let ?b = "[(''FILENAME'', PStr ''a.fits'', ''name''), (''BITPIX'', PInt 32, ''bits'')]"
  have e: "hdr_get ?e ''FILENAME'' = Inr (PStr ''a.fits'') \<and>
      hdr_get ?e ''EQUINOX'' = Inr (PFloat (Fin (2000 + 1 / 1000))) \<and>
      num_of (PFloat (Fin (2000 + 1 / 1000))) = Some (Fin (2000 + 1 / 1000))"
    by (simp add: hdr_get_def)
  have b: "hdr_get ?b ''FILENAME'' = Inr (PStr ''a.fits'') \<and>
      hdr_get ?b ''BITPIX'' = Inr (PInt 32) \<and> num_of (PInt 32) = Some (Fin 32)"
    by (simp add: hdr_get_def)
  have ce: "isclose (Fin 2000) (Fin (2000 + 1 / 1000))"
    by (simp add: atol_def rtol_def)
  have cb: "\<not> isclose (Fin 16) (Fin 32)"
    by (simp add: atol_def rtol_def)
  have m: "\<not> (\<exists>c \<in> set [PInt 8, PInt 16]. py_eq c (PFloat (Fin (17 / 2))))"
    by (simp add: fl_eq_def)
  from compare_numbers_approximate_membership_exact
    [where hdr = ?e and filename = "PStr ''a.fits''" and kw = "''EQUINOX''"
      and v = "PFloat (Fin (2000 + 1 / 1000))" and x = "Fin (2000 + 1 / 1000)"] e ce
  have 1: "test_equinox [?e] = ([], None)"
    by simp
  from compare_numbers_approximate_membership_exact
    [where hdr = ?b and filename = "PStr ''a.fits''" and kw = "''BITPIX''"
      and v = "PInt 32" and x = "Fin 32"] b cb
  have 2: "test_BITPIX [?b] =
      ([Compare_numbers ''test_BITPIX'' (PStr ''a.fits'') (PInt 16) (PInt 32)], None)"
    by simp
  from compare_numbers_approximate_membership_exact
    [where w = "PFloat (Fin (17 / 2))" and l = "[PInt 8, PInt 16]" and kw' = "''BITPIX''"
      and filename' = "PStr ''a.fits''" and func_name = "''test_kws_specific_vals''"] m
  have 3: "val_in_list (PFloat (Fin (17 / 2))) [PInt 8, PInt 16] ''BITPIX'' (PStr ''a.fits'')
       ''test_kws_specific_vals'' =
     ([Val_in_list ''test_kws_specific_vals'' (PStr ''a.fits'') ''BITPIX'' [PInt 8, PInt 16]
         (PFloat (Fin (17 / 2)))], None)"
    by simp
  show ?thesis
    using 1 2 3 by simp
qed

text \<open>
  The claim as first stated fails for the membership test: a bit depth of \<open>16 + 1 / 2 ^ 30\<close> is
  close to 16, and the check of the constant accepts it, but it is not equal to 8 or to 16,
  and the enumeration check reports it.
\<close>

theorem membership_exact_counterexample:
  "test_BITPIX
     [[(''FILENAME'', PStr ''a.fits'', ''name''),
       (''BITPIX'', PFloat (Fin (16 + 1 / 2 ^ 30)), ''bits'')]] = ([], None) \<and>
   test_kws_specific_vals example_lib
     [\<lparr>Keyword = ''BITPIX'', Type = ''integer'', Allowed_values = Some ''8,16'',
        Comment = ''bits''\<rparr>]
     [[(''FILENAME'', PStr ''a.fits'', ''name''),
       (''BITPIX'', PFloat (Fin (16 + 1 / 2 ^ 30)), ''bits'')]] =
   ([Val_in_list ''test_kws_specific_vals'' (PStr ''a.fits'') ''BITPIX'' [PInt 8, PInt 16]
       (PFloat (Fin (16 + 1 / 2 ^ 30)))], Some AssertionError)"
proof -
  have "test_BITPIX
     [[(''FILENAME'', PStr ''a.fits'', ''name''),
       (''BITPIX'', PFloat (Fin (16 + 1 / 2 ^ 30)), ''bits'')]] = ([], None)"
    by (simp add: test_BITPIX_def BITPIX_hdr_def hdr_get_def compare_numbers_def
        np_allclose_def atol_def rtol_def)
  moreover have "test_kws_specific_vals example_lib
     [\<lparr>Keyword = ''BITPIX'', Type = ''integer'', Allowed_values = Some ''8,16'',
        Comment = ''bits''\<rparr>]
     [[(''FILENAME'', PStr ''a.fits'', ''name''),
       (''BITPIX'', PFloat (Fin (16 + 1 / 2 ^ 30)), ''bits'')]] =
   ([Val_in_list ''test_kws_specific_vals'' (PStr ''a.fits'') ''BITPIX'' [PInt 8, PInt 16]
       (PFloat (Fin (16 + 1 / 2 ^ 30)))], Some AssertionError)"
    by (simp add: test_kws_specific_vals_def kws_specific_values_def kws_specific_vals_kw_def
        allowed_vals_of_def example_lib_def literals_def hdr_get_def val_in_list_def py_in_def
        fl_eq_def)
  ultimately show ?thesis
    by (rule conjI)
qed

subsection \<open>The removal of COMMENT and the order of the checks\<close>


































end
